theory Spec2Isabelle
  imports Complex_Main
begin

section \<open>Python and numpy primitives used by \<open>orbit/template/ktrlite.py\<close>\<close>

text \<open>
  Exceptions are values. \<open>IllegalArgument\<close> and \<open>ModelException\<close> are the two
  exception classes raised by the template itself (with their message); the others are the
  built-in exceptions that the interpreter or numpy raise on the operations the template
  performs (indexing, \<open>len\<close> of a non-list, division by zero, a negative array dimension).
\<close>

datatype error =
    IllegalArgument string
  | ModelException string
  | TypeError
  | IndexError
  | ZeroDivisionError
  | ValueError

text \<open>
  Python's \<open>round\<close> with one argument and numpy's \<open>np.round\<close> both round to the nearest
  integer and send a tie to the even neighbour. Floating-point numbers are idealised as
  rationals throughout.
\<close>

definition py_round :: "rat \<Rightarrow> int" where
  "py_round q =
     (let f = \<lfloor>q\<rfloor>; d = q - of_int f
      in if d < 1 / 2 then f
         else if 1 / 2 < d then f + 1
         else if even f then f else f + 1)"

text \<open>
  \<open>math.ceil(a / b)\<close> on two integers: the true quotient rounded up, and
  \<open>ZeroDivisionError\<close> when \<open>b\<close> is zero.
\<close>

definition ceil_div :: "int \<Rightarrow> int \<Rightarrow> error + int" where
  "ceil_div a b = (if b = 0 then Inl ZeroDivisionError else Inr \<lceil>(of_int a :: rat) / of_int b\<rceil>)"

text \<open>
  \<open>np.arange(start, stop, step)\<close> on integers: \<open>ceil((stop - start) / step)\<close> elements
  (none when that is not positive), the \<open>i\<close>-th being \<open>start + i * step\<close>; a zero step
  raises.
\<close>

definition np_arange :: "int \<Rightarrow> int \<Rightarrow> int \<Rightarrow> error + int list" where
  "np_arange start stop step =
     (if step = 0 then Inl ZeroDivisionError
      else Inr (map (\<lambda>i. start + int i * step)
                  [0..<nat \<lceil>(of_int (stop - start) :: rat) / of_int step\<rceil>]))"

section \<open>The knot placer\<close>

text \<open>
  \<open>KTRLiteModel._set_knots_tp\<close> (a static method). Isabelle names cannot start with an
  underscore, so the leading underscore of private names is dropped.
\<close>

definition set_knots_tp :: "int \<Rightarrow> int \<Rightarrow> string \<Rightarrow> error + int list" where
  "set_knots_tp knots_distance cutoff knot_location =
     (if knot_location = ''mid_point'' then
        np_arange (py_round (of_int knots_distance / 2)) cutoff knots_distance
      else if knot_location = ''end_point'' then
        (case np_arange (cutoff - 1) 0 (- knots_distance) of
           Inl e \<Rightarrow> Inl e
         | Inr knots_idx \<Rightarrow> Inr (sort knots_idx))
      else Inl (ModelException ''Invalid knots segment option.''))"


section \<open>Data model\<close>

text \<open>
  A configuration value that Python accepts as \<open>None\<close>, as a bare number or as a list.
\<close>

datatype 'a arg = Absent | Scalar 'a | Listed "'a list"

text \<open>
  A float: \<open>None\<close> is a value that is not a finite number (\<open>nan\<close>, the missing marker of
  the response, or the \<open>nan\<close>/infinity numpy gives for a division by zero).
\<close>

type_synonym fval = "rat option"

definition np_div :: "rat \<Rightarrow> rat \<Rightarrow> fval" where
  "np_div a b = (if b = 0 then None else Some (a / b))"

text \<open>A numpy matrix: its shape and its rows.\<close>

record matrix =
  nrows :: nat
  ncols :: nat
  entries :: "fval list list"

text \<open>\<open>np.zeros((n, 0))\<close>; a negative dimension raises.\<close>

definition np_zeros_0 :: "int \<Rightarrow> error + matrix" where
  "np_zeros_0 n =
     (if n < 0 then Inl ValueError
      else Inr \<lparr>nrows = nat n, ncols = 0, entries = replicate (nat n) []\<rparr>)"

text \<open>
  The input table: the values of its date column (a date is a number of ticks of some base
  unit of time) and its other columns by name.
\<close>

record dataframe =
  dates :: "int list"
  columns :: "(string \<times> fval list) list"

record training_meta =
  response :: "fval list"
  num_of_observations :: int
  training_start :: int
  training_end :: int

text \<open>
  The collaborators that are not part of the template: Python's formatting of a number,
  \<open>orbit.utils.features.make_fourier_series_df\<close> (of which the template keeps the table),
  \<open>orbit.utils.kernels.sandwich_kernel\<close>, and \<open>pd.infer_freq\<close> followed by
  \<open>np.timedelta64(1, freq[0])\<close>: the length in ticks of one unit of the inferred
  frequency, \<open>None\<close> when pandas infers none.
\<close>

record externals =
  str_num :: "rat \<Rightarrow> string"
  make_fourier_series_df :: "dataframe \<Rightarrow> rat \<Rightarrow> int \<Rightarrow> string \<Rightarrow> int \<Rightarrow> dataframe"
  sandwich_kernel :: "fval list \<Rightarrow> fval list \<Rightarrow> matrix"
  infer_freq :: "int list \<Rightarrow> nat option"

text \<open>
  The arguments of \<open>KTRLiteModel.__init__\<close> that the fit pipeline reads. A frequency is
  given by the length in ticks of one of its units (\<open>np.timedelta64(1, date_freq)\<close>).
\<close>

record ktr_args =
  seasonality :: "rat arg"
  seasonality_fs_order :: "int arg"
  seasonal_initial_knot_scale :: "rat arg"
  seasonal_knot_scale :: "rat arg"
  span_level :: rat
  span_coefficients :: rat
  level_knot_dates :: "int list option"
  level_knot_length :: "int option"
  coefficients_knot_length :: "int option"
  knot_location :: string
  date_freq :: "nat option"

text \<open>
  The model object after \<open>__init__\<close>: the arguments above, the private attributes (the
  source's \<open>_x\<close> is written \<open>x'\<close>), the regression attributes and the attributes set by
  \<open>set_dynamic_attributes\<close> (\<open>None\<close> until the first fit where the source has \<open>None\<close> or
  no attribute yet).
\<close>

record ktrlite = ktr_args +
  seasonality' :: "rat list"
  seasonality_fs_order' :: "int list"
  seasonal_initial_knot_scale' :: "rat list"
  seasonal_knot_scale' :: "rat list"
  level_knot_dates' :: "int list option"
  num_of_regressors :: nat
  regressor_col :: "string list"
  regressor_col_gp :: "string list list"
  coefficients_initial_knot_scale :: "rat list"
  coefficients_knot_scale :: "rat list"
  response_offset :: fval
  is_valid_response :: "bool list option"
  which_valid_response :: "nat list option"
  num_of_valid_response :: nat
  num_knots_level :: "nat option"
  knots_tp_level :: "fval list option"
  num_knots_coefficients :: "nat option"
  knots_tp_coefficients :: "fval list option"
  regressor_matrix :: "matrix option"
  kernel_level :: "matrix option"
  kernel_coefficients :: "matrix option"
  cutoff' :: "int option"
  knots_idx_level' :: "int list option"
  knots_idx_coef' :: "int list option"
  coef_knot_dates' :: "int list option"


section \<open>More primitives\<close>

text \<open>Sequencing of steps that may raise: the first exception ends the computation.\<close>

definition ebind :: "error + 'a \<Rightarrow> ('a \<Rightarrow> error + 'b) \<Rightarrow> error + 'b" where
  "ebind r f = (case r of Inl e \<Rightarrow> Inl e | Inr x \<Rightarrow> f x)"

text \<open>
  Indexing \<open>xs[k]\<close> of a list or of a numpy array: a negative index counts from the end, an
  index out of range raises \<open>IndexError\<close>.
\<close>

definition py_get :: "'a list \<Rightarrow> int \<Rightarrow> error + 'a" where
  "py_get xs k =
     (if 0 \<le> k \<and> k < int (length xs) then Inr (xs ! nat k)
      else if k < 0 \<and> - int (length xs) \<le> k then Inr (xs ! nat (int (length xs) + k))
      else Inl IndexError)"

text \<open>Indexing a numpy array with an array of indices: \<open>values[knots_idx]\<close>.\<close>

fun np_take :: "'a list \<Rightarrow> int list \<Rightarrow> error + 'a list" where
  "np_take xs [] = Inr []"
| "np_take xs (k # ks) =
     (case py_get xs k of
        Inl e \<Rightarrow> Inl e
      | Inr v \<Rightarrow> (case np_take xs ks of Inl e \<Rightarrow> Inl e | Inr vs \<Rightarrow> Inr (v # vs)))"

text \<open>The slice \<open>xs[:m]\<close>; a negative \<open>m\<close> drops the last \<open>-m\<close> elements.\<close>

definition py_slice_to :: "'a list \<Rightarrow> int \<Rightarrow> 'a list" where
  "py_slice_to xs m = (if 0 \<le> m then take (nat m) xs else take (length xs - nat (- m)) xs)"

text \<open>\<open>np.max\<close> of a non-empty list.\<close>

definition np_max :: "rat list \<Rightarrow> rat" where
  "np_max xs = Max (set xs)"

text \<open>
  \<open>np.nanmean\<close>: the mean of the entries that are numbers; \<open>nan\<close> (with a warning, not
  an exception) when there is none.
\<close>

definition nanmean :: "fval list \<Rightarrow> fval" where
  "nanmean xs =
     (let vs = concat (map (\<lambda>x. case x of None \<Rightarrow> [] | Some v \<Rightarrow> [v]) xs)
      in if vs = [] then None else Some (sum_list vs / of_nat (length vs)))"

text \<open>The decimal digits of an integer, as \<open>'{}'.format\<close> prints it.\<close>

fun str_nat :: "nat \<Rightarrow> string" where
  "str_nat n =
     (if n < 10 then [''0123456789'' ! n]
      else str_nat (n div 10) @ [''0123456789'' ! (n mod 10)])"

definition str_int :: "int \<Rightarrow> string" where
  "str_int k = (if k < 0 then ''-'' @ str_nat (nat (- k)) else str_nat (nat k))"

text \<open>
  \<open>df.filter(items=cols).values\<close>: the columns of the table named in \<open>cols\<close>, in that
  order, as a matrix with one row per row of the table.
\<close>

definition df_filter_values :: "string list \<Rightarrow> dataframe \<Rightarrow> matrix" where
  "df_filter_values items df =
     (let found = concat (map (\<lambda>c. case map_of (columns df) c of None \<Rightarrow> [] | Some col \<Rightarrow> [col]) items)
      in \<lparr>nrows = length (dates df), ncols = length found,
          entries = map (\<lambda>i. map (\<lambda>col. if i < length col then col ! i else None) found)
                      [0..<length (dates df)]\<rparr>)"

section \<open>Construction: \<open>_set_default_args\<close> and \<open>_set_seasonality_attributes\<close>\<close>

text \<open>
  The two prior-scale parameters are treated by the same four lines: a value that is not a
  list is multiplied by \<open>1.0\<close> (which raises on \<open>None\<close>) and repeated once per seasonality;
  a list is taken as it is.
\<close>

definition broadcast_scale :: "rat arg \<Rightarrow> nat \<Rightarrow> error + rat list" where
  "broadcast_scale scale n =
     (case scale of
        Absent \<Rightarrow> Inl TypeError
      | Scalar v \<Rightarrow> Inr (replicate n v)
      | Listed vs \<Rightarrow> Inr vs)"

text \<open>
  \<open>_set_default_args\<close>, from the arguments to the four private lists
  \<open>_seasonality\<close>, \<open>_seasonality_fs_order\<close>, \<open>_seasonal_initial_knot_scale\<close> and
  \<open>_seasonal_knot_scale\<close>. \<open>len\<close> of an order that is still \<open>None\<close> raises \<open>TypeError\<close>.
\<close>

definition set_default_args :: "ktr_args \<Rightarrow> error + (rat list \<times> int list \<times> rat list \<times> rat list)" where
  "set_default_args a =
     (let (seas, order0) =
            (case seasonality a of
               Absent \<Rightarrow> ([], Listed [])
             | Scalar s \<Rightarrow> ([s], seasonality_fs_order a)
             | Listed ss \<Rightarrow> (ss, seasonality_fs_order a));
          order1 =
            (if seas \<noteq> [] \<and> order0 = Absent then Listed (replicate (length seas) 2)
             else case order0 of Scalar order \<Rightarrow> Listed [order] | _ \<Rightarrow> order0)
      in case order1 of
           Listed orders \<Rightarrow>
             if length orders \<noteq> length seas then
               Inl (IllegalArgument ''length of seasonality and fs_order not matching'')
             else if list_ex (\<lambda>(order, s). s - 1 < 2 * of_int order) (zip orders seas) then
               Inl (IllegalArgument ''reduce seasonality_fs_order to avoid over-fitting'')
             else
               ebind (broadcast_scale (seasonal_initial_knot_scale a) (length seas)) (\<lambda>initial_scale.
               ebind (broadcast_scale (seasonal_knot_scale a) (length seas)) (\<lambda>knot_scale.
               Inr (seas, orders, initial_scale, knot_scale)))
         | _ \<Rightarrow> Inl TypeError)"

text \<open>The body of the loop of \<open>_set_seasonality_attributes\<close>, over \<open>enumerate(self._seasonality)\<close>.\<close>

fun seasonality_loop :: "externals \<Rightarrow> (nat \<times> rat) list \<Rightarrow> ktrlite \<Rightarrow> error + ktrlite" where
  "seasonality_loop ext [] m = Inr m"
| "seasonality_loop ext ((idx, s) # rest) m =
     (case py_get (seasonality_fs_order' m) (int idx) of
        Inl e \<Rightarrow> Inl e
      | Inr order \<Rightarrow>
     (case py_get (seasonal_initial_knot_scale' m) (int idx) of
        Inl e \<Rightarrow> Inl e
      | Inr initial_scale \<Rightarrow>
     (case py_get (seasonal_knot_scale' m) (int idx) of
        Inl e \<Rightarrow> Inl e
      | Inr knot_scale \<Rightarrow>
          (let fs_cols = concat (map (\<lambda>i. [''seas'' @ str_num ext s @ ''_fs_cos'' @ str_int i,
                                            ''seas'' @ str_num ext s @ ''_fs_sin'' @ str_int i])
                                  [1..order])
           in seasonality_loop ext rest
                (m\<lparr>coefficients_initial_knot_scale :=
                     coefficients_initial_knot_scale m @ replicate (2 * nat order) initial_scale,
                   coefficients_knot_scale :=
                     coefficients_knot_scale m @ replicate (2 * nat order) knot_scale,
                   regressor_col := regressor_col m @ fs_cols,
                   regressor_col_gp := regressor_col_gp m @ [fs_cols]\<rparr>)))))"

definition set_seasonality_attributes :: "externals \<Rightarrow> ktrlite \<Rightarrow> error + ktrlite" where
  "set_seasonality_attributes ext m =
     (let m0 = m\<lparr>regressor_col_gp := [], regressor_col := [],
                 coefficients_initial_knot_scale := [], coefficients_knot_scale := []\<rparr>
      in ebind (if 0 < length (seasonality' m0)
                then seasonality_loop ext (enumerate 0 (seasonality' m0)) m0
                else Inr m0)
           (\<lambda>m1. Inr (m1\<lparr>num_of_regressors := length (regressor_col m1)\<rparr>)))"

text \<open>
  \<open>KTRLiteModel.__init__\<close>: the attributes are set from the arguments, then
  \<open>_set_default_args\<close> and \<open>_set_seasonality_attributes\<close> run, then the response
  and knot attributes get their initial values.
\<close>

definition ktrlite_init :: "externals \<Rightarrow> ktr_args \<Rightarrow> error + ktrlite" where
  "ktrlite_init ext a =
     ebind (set_default_args a) (\<lambda>(seas, orders, initial_scale, knot_scale).
       set_seasonality_attributes ext
         \<lparr>seasonality = seasonality a,
          seasonality_fs_order = seasonality_fs_order a,
          seasonal_initial_knot_scale = seasonal_initial_knot_scale a,
          seasonal_knot_scale = seasonal_knot_scale a,
          span_level = span_level a,
          span_coefficients = span_coefficients a,
          level_knot_dates = level_knot_dates a,
          level_knot_length = level_knot_length a,
          coefficients_knot_length = coefficients_knot_length a,
          knot_location = knot_location a,
          date_freq = date_freq a,
          seasonality' = seas,
          seasonality_fs_order' = orders,
          seasonal_initial_knot_scale' = initial_scale,
          seasonal_knot_scale' = knot_scale,
          level_knot_dates' = level_knot_dates a,
          num_of_regressors = 0,
          regressor_col = [],
          regressor_col_gp = [],
          coefficients_initial_knot_scale = [],
          coefficients_knot_scale = [],
          response_offset = Some 0,
          is_valid_response = None,
          which_valid_response = None,
          num_of_valid_response = 0,
          num_knots_level = None,
          knots_tp_level = None,
          num_knots_coefficients = None,
          knots_tp_coefficients = None,
          regressor_matrix = None,
          kernel_level = None,
          kernel_coefficients = None,
          cutoff' = None,
          knots_idx_level' = None,
          knots_idx_coef' = None,
          coef_knot_dates' = None\<rparr>)"


section \<open>The fit pipeline\<close>

text \<open>
  \<open>_set_validate_ktr_params\<close>. The maximal seasonality is computed twice in the source,
  once for the check and once for the offset.
\<close>

definition set_validate_ktr_params :: "ktrlite \<Rightarrow> training_meta \<Rightarrow> error + ktrlite" where
  "set_validate_ktr_params m meta =
     (if seasonality' m \<noteq> [] \<and>
         num_of_observations meta < py_round (np_max (seasonality' m))
      then Inl (ModelException
                 (''Number of observations '' @ str_int (num_of_observations meta) @
                  '' is less than max seasonality '' @
                  str_int (py_round (np_max (seasonality' m)))))
      else
        (let offset =
               (if seasonality' m \<noteq> []
                then nanmean (py_slice_to (response meta) (py_round (np_max (seasonality' m))))
                else nanmean (response meta));
             valid = map (\<lambda>v. v \<noteq> None) (response meta);
             which = filter (\<lambda>i. valid ! i) [0..<length valid]
         in Inr (m\<lparr>response_offset := offset,
                   is_valid_response := Some valid,
                   which_valid_response := Some which,
                   num_of_valid_response := length which\<rparr>)))"

text \<open>
  \<open>_make_seasonal_regressors\<close>: one call of the basis generator per seasonality, each on
  the table the previous call returned.
\<close>

fun fourier_loop ::
  "externals \<Rightarrow> int list \<Rightarrow> (nat \<times> rat) list \<Rightarrow> dataframe \<Rightarrow> int \<Rightarrow> error + dataframe" where
  "fourier_loop ext orders [] df shift = Inr df"
| "fourier_loop ext orders ((idx, s) # rest) df shift =
     (case py_get orders (int idx) of
        Inl e \<Rightarrow> Inl e
      | Inr order \<Rightarrow>
          fourier_loop ext orders rest
            (make_fourier_series_df ext df s order (''seas'' @ str_num ext s @ ''_'') shift) shift)"

definition make_seasonal_regressors ::
  "externals \<Rightarrow> ktrlite \<Rightarrow> dataframe \<Rightarrow> int \<Rightarrow> error + dataframe" where
  "make_seasonal_regressors ext m df shift =
     (if 0 < length (seasonality' m)
      then fourier_loop ext (seasonality_fs_order' m) (enumerate 0 (seasonality' m)) df shift
      else Inr df)"

text \<open>\<open>_set_regressor_matrix\<close>.\<close>

definition set_regressor_matrix :: "ktrlite \<Rightarrow> dataframe \<Rightarrow> training_meta \<Rightarrow> error + ktrlite" where
  "set_regressor_matrix m df meta =
     ebind (np_zeros_0 (num_of_observations meta)) (\<lambda>zeros.
       Inr (m\<lparr>regressor_matrix :=
                Some (if 0 < num_of_regressors m then df_filter_values (regressor_col m) df
                      else zeros)\<rparr>))"

text \<open>
  \<open>get_gap_between_dates\<close>: the difference of two dates divided by one unit of the
  frequency.
\<close>

definition get_gap_between_dates :: "int \<Rightarrow> int \<Rightarrow> nat \<Rightarrow> fval" where
  "get_gap_between_dates start_date end_date freq =
     np_div (of_int (end_date - start_date)) (of_nat freq)"

text \<open>
  The expression \<open>(gap(start, d) + 1) / (gap(start, training_end) + 1)\<close> of
  \<open>_set_kernel_matrix\<close> for one knot date \<open>d\<close>.
\<close>

definition date_position :: "int \<Rightarrow> int \<Rightarrow> nat \<Rightarrow> int \<Rightarrow> fval" where
  "date_position start_date end_date freq d =
     (case (get_gap_between_dates start_date d freq,
            get_gap_between_dates start_date end_date freq) of
        (Some g, Some g_end) \<Rightarrow> np_div (g + 1) (g_end + 1)
      | _ \<Rightarrow> None)"

text \<open>
  The list comprehension that keeps the knot dates within the observed dates. Its condition
  reads \<open>values[-1]\<close> first, for every date of the list, so an empty table raises unless
  the list is empty.
\<close>

definition filter_dates :: "int list \<Rightarrow> int list \<Rightarrow> error + int list" where
  "filter_dates df_dates knot_dates =
     (if knot_dates = [] then Inr []
      else if df_dates = [] then Inl IndexError
      else Inr (filter (\<lambda>x. x \<le> last df_dates \<and> hd df_dates \<le> x) knot_dates))"

text \<open>
  The choice of the knot distance, written twice in \<open>_set_kernel_matrix\<close> (for the level
  with \<open>level_knot_length\<close> and \<open>span_level\<close>, for the coefficients with
  \<open>coefficients_knot_length\<close> and \<open>span_coefficients\<close>):
  \<open>round(1 / span)\<close> and then \<open>math.ceil(cutoff / number_of_knots)\<close>, each of which
  raises on a zero divisor.
\<close>

definition knots_distance_of :: "int option \<Rightarrow> rat \<Rightarrow> int \<Rightarrow> error + int" where
  "knots_distance_of knot_length span_width cutoff =
     (case knot_length of
        Some l \<Rightarrow> Inr l
      | None \<Rightarrow>
          if span_width = 0 then Inl ZeroDivisionError
          else ceil_div cutoff (py_round (1 / span_width)))"

text \<open>The fractional positions \<open>(1 + knots_idx) / num_of_observations\<close>.\<close>

definition knots_tp_of :: "int list \<Rightarrow> int \<Rightarrow> fval list" where
  "knots_tp_of knots_idx n = map (\<lambda>k. np_div (of_int (1 + k)) (of_int n)) knots_idx"

text \<open>The level part of \<open>_set_kernel_matrix\<close> (the \<open>if\<close> on \<open>self._level_knot_dates\<close>).\<close>

definition set_level_knots ::
  "externals \<Rightarrow> ktrlite \<Rightarrow> dataframe \<Rightarrow> training_meta \<Rightarrow> error + ktrlite" where
  "set_level_knots ext m df meta =
     (case level_knot_dates' m of
        None \<Rightarrow>
          ebind (knots_distance_of (level_knot_length m) (span_level m) (num_of_observations meta))
            (\<lambda>knots_distance.
          ebind (set_knots_tp knots_distance (num_of_observations meta) (knot_location m))
            (\<lambda>knots_idx_level.
          ebind (np_take (dates df) knots_idx_level)
            (\<lambda>knot_dates.
          Inr (m\<lparr>knots_idx_level' := Some knots_idx_level,
                  knots_tp_level := Some (knots_tp_of knots_idx_level (num_of_observations meta)),
                  level_knot_dates' := Some knot_dates\<rparr>))))
      | Some knot_dates \<Rightarrow>
          ebind (filter_dates (dates df) knot_dates)
            (\<lambda>kept.
          ebind (case date_freq m of
                   Some freq \<Rightarrow> Inr freq
                 | None \<Rightarrow> (case infer_freq ext (dates df) of
                               None \<Rightarrow> Inl TypeError
                             | Some freq \<Rightarrow> Inr freq))
            (\<lambda>freq.
          Inr (m\<lparr>level_knot_dates' := Some kept,
                  date_freq := Some freq,
                  knots_tp_level :=
                    Some (map (date_position (training_start meta) (training_end meta) freq)
                            kept)\<rparr>))))"

text \<open>The coefficient part of \<open>_set_kernel_matrix\<close>.\<close>

definition set_coefficient_knots ::
  "externals \<Rightarrow> ktrlite \<Rightarrow> dataframe \<Rightarrow> training_meta \<Rightarrow> fval list \<Rightarrow> error + ktrlite" where
  "set_coefficient_knots ext m df meta tp =
     ebind (np_zeros_0 (num_of_observations meta)) (\<lambda>zeros.
       let m0 = m\<lparr>kernel_coefficients := Some zeros, num_knots_coefficients := Some 0\<rparr>
       in if 0 < num_of_regressors m0 then
            ebind (knots_distance_of (coefficients_knot_length m0) (span_coefficients m0)
                     (num_of_observations meta))
              (\<lambda>knots_distance.
            ebind (set_knots_tp knots_distance (num_of_observations meta) (knot_location m0))
              (\<lambda>knots_idx_coef.
            ebind (np_take (dates df) knots_idx_coef)
              (\<lambda>knot_dates.
            Inr (m0\<lparr>knots_idx_coef' := Some knots_idx_coef,
                     knots_tp_coefficients :=
                       Some (knots_tp_of knots_idx_coef (num_of_observations meta)),
                     coef_knot_dates' := Some knot_dates,
                     kernel_coefficients :=
                       Some (sandwich_kernel ext tp
                               (knots_tp_of knots_idx_coef (num_of_observations meta))),
                     num_knots_coefficients :=
                       Some (length (knots_tp_of knots_idx_coef (num_of_observations meta)))\<rparr>))))
          else Inr m0)"

text \<open>\<open>_set_kernel_matrix\<close>.\<close>

definition set_kernel_matrix ::
  "externals \<Rightarrow> ktrlite \<Rightarrow> dataframe \<Rightarrow> training_meta \<Rightarrow> error + ktrlite" where
  "set_kernel_matrix ext m df meta =
     (let tp = map (\<lambda>i. np_div (of_int i) (of_int (num_of_observations meta)))
                 [1..num_of_observations meta]
      in ebind (set_level_knots ext (m\<lparr>cutoff' := Some (num_of_observations meta)\<rparr>) df meta)
           (\<lambda>m1.
              let knots_tp = (case knots_tp_level m1 of None \<Rightarrow> [] | Some tps \<Rightarrow> tps)
              in set_coefficient_knots ext
                   (m1\<lparr>kernel_level := Some (sandwich_kernel ext tp knots_tp),
                       num_knots_level := Some (length knots_tp)\<rparr>)
                   df meta tp))"

text \<open>\<open>set_dynamic_attributes\<close>: the four steps of a fit call.\<close>

definition set_dynamic_attributes ::
  "externals \<Rightarrow> ktrlite \<Rightarrow> dataframe \<Rightarrow> training_meta \<Rightarrow> error + ktrlite" where
  "set_dynamic_attributes ext m df meta =
     ebind (set_validate_ktr_params m meta) (\<lambda>m1.
     ebind (make_seasonal_regressors ext m1 df 0) (\<lambda>df1.
     ebind (set_regressor_matrix m1 df1 meta) (\<lambda>m2.
     set_kernel_matrix ext m2 df1 meta)))"


section \<open>The specification's knot distance\<close>

text \<open>
  The knot distance as the specification words it: the configured knot length when there is
  one, otherwise \<open>ceil(cutoff / round(1 / span))\<close>.
\<close>

definition spec_knot_distance :: "int option \<Rightarrow> rat \<Rightarrow> int \<Rightarrow> int" where
  "spec_knot_distance knot_length span_width cutoff =
     (case knot_length of
        Some l \<Rightarrow> l
      | None \<Rightarrow> \<lceil>(of_int cutoff :: rat) / of_int (py_round (1 / span_width))\<rceil>)"

section \<open>Example inputs\<close>

text \<open>
  Stand-ins for the collaborators: numbers print as their integer part, the basis generator
  appends \<open>2 * order\<close> columns of zeros under the names the template expects, the kernel
  is a zero matrix of the right shape, and the inferred frequency has a unit of one tick.
\<close>

definition example_ext :: externals where
  "example_ext =
     \<lparr>str_num = (\<lambda>q. str_int \<lfloor>q\<rfloor>),
      make_fourier_series_df =
        (\<lambda>df s order prefix shift.
           df\<lparr>columns := columns df @
                concat (map (\<lambda>i. [(prefix @ ''fs_cos'' @ str_int i, replicate (length (dates df)) (Some 0)),
                                  (prefix @ ''fs_sin'' @ str_int i, replicate (length (dates df)) (Some 0))])
                          [1..order])\<rparr>),
      sandwich_kernel =
        (\<lambda>tp knots. \<lparr>nrows = length tp, ncols = length knots,
                       entries = replicate (length tp) (replicate (length knots) (Some 0))\<rparr>),
      infer_freq = (\<lambda>ds. Some 1)\<rparr>"

text \<open>
  A weekly seasonality on eight daily observations:
  \<open>KTRLite(seasonality=[7], span_level=0.25, span_coefficients=0.5)\<close>.
\<close>

definition example_args :: ktr_args where
  "example_args =
     \<lparr>seasonality = Listed [7], seasonality_fs_order = Absent,
      seasonal_initial_knot_scale = Scalar 1, seasonal_knot_scale = Scalar (1 / 10),
      span_level = 1 / 4, span_coefficients = 1 / 2,
      level_knot_dates = None, level_knot_length = None, coefficients_knot_length = None,
      knot_location = ''mid_point'', date_freq = None\<rparr>"

definition example_df :: dataframe where
  "example_df = \<lparr>dates = [0, 1, 2, 3, 4, 5, 6, 7], columns = []\<rparr>"

definition example_meta :: training_meta where
  "example_meta =
     \<lparr>response = [Some 3, Some 1, None, Some 4, Some 1, Some 5, Some 9, Some 2],
      num_of_observations = 8, training_start = 0, training_end = 7\<rparr>"

definition example_model :: ktrlite where
  "example_model = projr (ktrlite_init example_ext example_args)"

definition example_kernels :: ktrlite where
  "example_kernels = projr (set_kernel_matrix example_ext example_model example_df example_meta)"

text \<open>
  The same configuration with a fourier order that is too high for the period
  (\<open>2 * 4 > 7 - 1\<close>), and with the order given as a list.
\<close>

definition high_order_args :: ktr_args where
  "high_order_args = example_args\<lparr>seasonality_fs_order := Listed [4]\<rparr>"

definition listed_order_args :: ktr_args where
  "listed_order_args = example_args\<lparr>seasonality_fs_order := Listed [2]\<rparr>"

text \<open>A fourier order without a seasonality: \<open>KTRLite(seasonality_fs_order=3)\<close>.\<close>

definition order_only_args :: ktr_args where
  "order_only_args = example_args\<lparr>seasonality := Absent, seasonality_fs_order := Scalar 3\<rparr>"

text \<open>
  A list of initial-knot scales that is shorter than the list of seasonalities:
  \<open>KTRLite(seasonality=[7], seasonal_initial_knot_scale=[])\<close>.
\<close>

definition short_scale_args :: ktr_args where
  "short_scale_args = example_args\<lparr>seasonal_initial_knot_scale := Listed []\<rparr>"

text \<open>
  A response of five observations with one missing value, a model with a period of three
  (\<open>KTRLite(seasonality=[3], seasonality_fs_order=[1])\<close>) and a model without seasonality.
\<close>

definition short_meta :: training_meta where
  "short_meta =
     \<lparr>response = [Some 2, None, Some 4, Some 9, Some 1],
      num_of_observations = 5, training_start = 0, training_end = 4\<rparr>"

definition period3_model :: ktrlite where
  "period3_model =
     projr (ktrlite_init example_ext
              (example_args\<lparr>seasonality := Listed [3], seasonality_fs_order := Listed [1]\<rparr>))"

definition period3_validated :: ktrlite where
  "period3_validated = projr (set_validate_ktr_params period3_model short_meta)"

definition plain_args :: ktr_args where
  "plain_args = example_args\<lparr>seasonality := Absent\<rparr>"

definition plain_model :: ktrlite where
  "plain_model = projr (ktrlite_init example_ext plain_args)"

definition plain_fitted :: ktrlite where
  "plain_fitted = projr (set_dynamic_attributes example_ext plain_model example_df example_meta)"

text \<open>
  Explicit level knot dates on the eight daily observations: in increasing order with one
  date after the last observation, and out of order.
\<close>

definition dated_args :: ktr_args where
  "dated_args = example_args\<lparr>level_knot_dates := Some [2, 5, 9]\<rparr>"

definition dated_model :: ktrlite where
  "dated_model = projr (ktrlite_init example_ext dated_args)"

definition dated_fit1 :: ktrlite where
  "dated_fit1 = projr (set_dynamic_attributes example_ext dated_model example_df example_meta)"

text \<open>
  Training metadata whose window does not cover the observed dates (it starts on day 4), and
  metadata whose window ends before it starts.
\<close>

definition late_start_meta :: training_meta where
  "late_start_meta = example_meta\<lparr>training_start := 4\<rparr>"

definition reversed_meta :: training_meta where
  "reversed_meta = example_meta\<lparr>training_start := 5, training_end := 0\<rparr>"

text \<open>Twelve daily observations, for a second fit of the model fitted on the first eight.\<close>

definition longer_df :: dataframe where
  "longer_df = \<lparr>dates = [0, 1, 2, 3, 4, 5, 6, 7, 8, 9, 10, 11], columns = []\<rparr>"

definition longer_meta :: training_meta where
  "longer_meta =
     \<lparr>response = [Some 3, Some 1, None, Some 4, Some 1, Some 5, Some 9, Some 2,
                  Some 6, Some 5, Some 3, Some 5],
      num_of_observations = 12, training_start = 0, training_end = 11\<rparr>"

definition unsorted_args :: ktr_args where
  "unsorted_args = plain_args\<lparr>level_knot_dates := Some [5, 3]\<rparr>"

definition unsorted_model :: ktrlite where
  "unsorted_model = projr (ktrlite_init example_ext unsorted_args)"

text \<open>
  Four weekly observations (the dates counted in days), fitted twice by a model without
  seasonality and without explicit knot dates, whose frequency is given in days:
  \<open>KTRLite(level_knot_length=2, date_freq='D')\<close>.
\<close>

definition weekly_args :: ktr_args where
  "weekly_args = plain_args\<lparr>level_knot_length := Some 2, date_freq := Some 1\<rparr>"

definition weekly_df :: dataframe where
  "weekly_df = \<lparr>dates = [0, 7, 14, 21], columns = []\<rparr>"

definition weekly_meta :: training_meta where
  "weekly_meta =
     \<lparr>response = [Some 1, Some 2, Some 3, Some 4],
      num_of_observations = 4, training_start = 0, training_end = 21\<rparr>"

definition weekly_model :: ktrlite where
  "weekly_model = projr (ktrlite_init example_ext weekly_args)"

definition weekly_fit1 :: ktrlite where
  "weekly_fit1 = projr (set_dynamic_attributes example_ext weekly_model weekly_df weekly_meta)"

definition weekly_fit2 :: ktrlite where
  "weekly_fit2 = projr (set_dynamic_attributes example_ext weekly_fit1 weekly_df weekly_meta)"

section \<open>Properties of the knot placer\<close>

text \<open>Rounding up a quotient, and Python's rounding of a half.\<close>

lemma ceil_lt: "0 < (k::int) \<Longrightarrow> int i < \<lceil>(of_int a :: rat) / of_int k\<rceil> \<longleftrightarrow> int i * k < a"
proof -
  assume k: "0 < k"
  have "int i < \<lceil>(of_int a :: rat) / of_int k\<rceil> \<longleftrightarrow> (of_int (int i) :: rat) < of_int a / of_int k"
    by (rule less_ceiling_iff)
  also have "\<dots> \<longleftrightarrow> (of_int (int i) :: rat) * of_int k < of_int a"
    using k by (simp add: pos_less_divide_eq)
  also have "\<dots> \<longleftrightarrow> int i * k < a"
    by (simp only: of_int_mult [symmetric] of_int_less_iff)
  finally show ?thesis .
qed

lemma py_round_half:
  "py_round (of_int k / 2) =
     (if even k then k div 2 else if even (k div 2) then k div 2 else k div 2 + 1)"
proof -
  have fl: "\<lfloor>(of_int k :: rat) / 2\<rfloor> = k div 2"
    using floor_divide_of_int_eq [of k 2, where ?'a = rat] by simp
  show ?thesis
  proof (cases "even k")
    case True
    then obtain m where m: "k = 2 * m" by (elim evenE)
    then show ?thesis using fl by (simp add: py_round_def Let_def)
  next
    case False
    then obtain m where m: "k = 2 * m + 1" by (elim oddE)
    have d: "(of_int k :: rat) / 2 - of_int (k div 2) = 1 / 2"
      using m by (simp add: field_simps)
    show ?thesis using False fl d by (simp add: py_round_def Let_def)
  qed
qed

lemma round_half_bounds: "0 < (k::int) \<Longrightarrow> 0 \<le> py_round (of_int k / 2) \<and> py_round (of_int k / 2) \<le> k"
  unfolding py_round_half by (auto; presburger)

text \<open>An ascending \<open>np.arange\<close>.\<close>

lemma arange_up_mem:
  assumes "0 < step" and "np_arange start stop step = Inr ks"
  shows "set ks = {x. \<exists>i::nat. x = start + int i * step \<and> x < stop}"
proof -
  define n where "n = nat \<lceil>(of_int (stop - start) :: rat) / of_int step\<rceil>"
  have lt: "i < n \<longleftrightarrow> start + int i * step < stop" for i :: nat
  proof -
    have "i < n \<longleftrightarrow> int i * step < stop - start"
      unfolding n_def zless_nat_eq_int_zless by (rule ceil_lt [OF assms(1)])
    then show ?thesis by linarith
  qed
  from assms have ks: "ks = map (\<lambda>i. start + int i * step) [0..<n]"
    by (simp add: np_arange_def n_def)
  show ?thesis
  proof (intro set_eqI iffI)
    fix x assume "x \<in> set ks"
    then obtain i where "i < n" "x = start + int i * step" unfolding ks by auto
    then show "x \<in> {x. \<exists>i::nat. x = start + int i * step \<and> x < stop}"
      using lt by auto
  next
    fix x assume "x \<in> {x. \<exists>i::nat. x = start + int i * step \<and> x < stop}"
    then obtain i :: nat where i: "x = start + int i * step" "x < stop" by auto
    then have "i < n" using lt by simp
    then show "x \<in> set ks" unfolding ks using i(1) by auto
  qed
qed

lemma arange_up_sorted:
  assumes "0 < step" "np_arange start stop step = Inr ks"
  shows "sorted_wrt (<) ks"
proof -
  from assms have ks: "ks = map (\<lambda>i. start + int i * step) [0..<nat \<lceil>(of_int (stop - start) :: rat) / of_int step\<rceil>]"
    by (simp add: np_arange_def)
  show ?thesis unfolding ks using assms(1)
    by (simp add: sorted_wrt_map sorted_wrt_iff_nth_less)
qed

lemma mid_len:
  assumes "0 < kd" "0 < cutoff" "0 \<le> r" "r \<le> kd"
  shows "\<bar>int (nat \<lceil>(of_int (cutoff - r) :: rat) / of_int kd\<rceil>) - \<lceil>(of_int cutoff :: rat) / of_int kd\<rceil>\<bar> \<le> 1"
proof -
  let ?c = "\<lceil>(of_int cutoff :: rat) / of_int kd\<rceil>"
  let ?n = "\<lceil>(of_int (cutoff - r) :: rat) / of_int kd\<rceil>"
  have kd: "(0::rat) < of_int kd" using assms(1) by simp
  have up: "?n \<le> ?c"
    using assms kd by (intro ceiling_mono divide_right_mono) simp_all
  have "(of_int (cutoff - kd) :: rat) / of_int kd = of_int cutoff / of_int kd - 1"
    using kd by (simp add: field_simps)
  then have eq: "\<lceil>(of_int (cutoff - kd) :: rat) / of_int kd\<rceil> = ?c - 1"
    by simp
  have "\<lceil>(of_int (cutoff - kd) :: rat) / of_int kd\<rceil> \<le> ?n"
    using assms kd by (intro ceiling_mono divide_right_mono) simp_all
  then have lo: "?c - 1 \<le> ?n" using eq by simp
  have "0 < (of_int cutoff :: rat) / of_int kd" using assms kd by simp
  then have "0 < ?c" by simp
  then show ?thesis using up lo by linarith
qed

text \<open>
  Claim C2. For a positive knot distance and a positive cutoff, the knot placer at
  \<open>'mid_point'\<close> returns the arithmetic progression that starts at
  \<open>round(knot_distance / 2)\<close> with step \<open>knot_distance\<close>, with exactly the terms below
  the cutoff; the sequence is strictly increasing, lies in \<open>[0, cutoff)\<close>, and its length
  differs from \<open>ceil(cutoff / knot_distance)\<close> by at most one.
\<close>

theorem mid_point_knots:
  assumes "0 < knots_distance" and "0 < cutoff"
  shows "\<exists>ks. set_knots_tp knots_distance cutoff ''mid_point'' = Inr ks
     \<and> ks = map (\<lambda>i. py_round (of_int knots_distance / 2) + int i * knots_distance) [0..<length ks]
     \<and> set ks = {x. \<exists>i::nat. x = py_round (of_int knots_distance / 2) + int i * knots_distance \<and> x < cutoff}
     \<and> sorted_wrt (<) ks
     \<and> (\<forall>x \<in> set ks. 0 \<le> x \<and> x < cutoff)
     \<and> \<bar>int (length ks) - \<lceil>(of_int cutoff :: rat) / of_int knots_distance\<rceil>\<bar> \<le> 1"
proof -
  let ?r = "py_round (of_int knots_distance / 2)"
  let ?n = "nat \<lceil>(of_int (cutoff - ?r) :: rat) / of_int knots_distance\<rceil>"
  let ?ks = "map (\<lambda>i. ?r + int i * knots_distance) [0..<?n]"
  have r: "0 \<le> ?r" "?r \<le> knots_distance"
    using round_half_bounds [OF assms(1)] by simp_all
  have run: "np_arange ?r cutoff knots_distance = Inr ?ks"
    using assms(1) by (simp add: np_arange_def)
  have res: "set_knots_tp knots_distance cutoff ''mid_point'' = Inr ?ks"
    using run by (simp add: set_knots_tp_def)
  have mem: "set ?ks = {x. \<exists>i::nat. x = ?r + int i * knots_distance \<and> x < cutoff}"
    by (rule arange_up_mem [OF assms(1) run])
  have srt: "sorted_wrt (<) ?ks"
    by (rule arange_up_sorted [OF assms(1) run])
  have bnd: "\<forall>x \<in> set ?ks. 0 \<le> x \<and> x < cutoff"
  proof
    fix x assume "x \<in> set ?ks"
    then obtain i :: nat where "x = ?r + int i * knots_distance" "x < cutoff"
      unfolding mem by blast
    then show "0 \<le> x \<and> x < cutoff" using r(1) assms(1) by simp
  qed
  have len: "\<bar>int (length ?ks) - \<lceil>(of_int cutoff :: rat) / of_int knots_distance\<rceil>\<bar> \<le> 1"
    using mid_len [OF assms r] by simp
  have ap: "?ks = map (\<lambda>i. ?r + int i * knots_distance) [0..<length ?ks]" by simp
  show ?thesis
  proof (intro exI [of _ ?ks] conjI)
    show "set_knots_tp knots_distance cutoff ''mid_point'' = Inr ?ks" by (rule res)
    show "?ks = map (\<lambda>i. ?r + int i * knots_distance) [0..<length ?ks]" by (rule ap)
    show "set ?ks = {x. \<exists>i::nat. x = ?r + int i * knots_distance \<and> x < cutoff}" by (rule mem)
    show "sorted_wrt (<) ?ks" by (rule srt)
    show "\<forall>x \<in> set ?ks. 0 \<le> x \<and> x < cutoff" by (rule bnd)
    show "\<bar>int (length ?ks) - \<lceil>(of_int cutoff :: rat) / of_int knots_distance\<rceil>\<bar> \<le> 1" by (rule len)
  qed
qed

theorem mid_point_knots_witness:
  "(0::int) < 3 \<and> (0::int) < 10
   \<and> (\<exists>ks. set_knots_tp 3 10 ''mid_point'' = Inr ks
     \<and> ks = map (\<lambda>i. py_round (of_int 3 / 2) + int i * 3) [0..<length ks]
     \<and> set ks = {x. \<exists>i::nat. x = py_round (of_int 3 / 2) + int i * 3 \<and> x < 10}
     \<and> sorted_wrt (<) ks
     \<and> (\<forall>x \<in> set ks. 0 \<le> x \<and> x < 10)
     \<and> \<bar>int (length ks) - \<lceil>(of_int 10 :: rat) / of_int 3\<rceil>\<bar> \<le> 1)"
proof -
  have h1: "(0::int) < 3" and h2: "(0::int) < 10" by simp_all
  show ?thesis
    using h1 h2 mid_point_knots [OF h1 h2] by (intro conjI)
qed

text \<open>A descending \<open>np.arange\<close> that stops at zero.\<close>

lemma arange_down:
  assumes "0 < step"
  shows "np_arange start 0 (- step) =
           Inr (map (\<lambda>i. start - int i * step) [0..<nat \<lceil>(of_int start :: rat) / of_int step\<rceil>])"
proof -
  have "(of_int (0 - start) :: rat) / of_int (- step) = of_int start / of_int step"
    by simp
  then show ?thesis using assms by (simp add: np_arange_def)
qed

lemma arange_down_mem:
  assumes "0 < step"
  shows "set (map (\<lambda>i. start - int i * step) [0..<nat \<lceil>(of_int start :: rat) / of_int step\<rceil>])
           = {x. \<exists>i::nat. x = start - int i * step \<and> 0 < x}"
proof -
  define n where "n = nat \<lceil>(of_int start :: rat) / of_int step\<rceil>"
  have lt: "i < n \<longleftrightarrow> 0 < start - int i * step" for i :: nat
  proof -
    have "i < n \<longleftrightarrow> int i * step < start"
      unfolding n_def zless_nat_eq_int_zless by (rule ceil_lt [OF assms])
    then show ?thesis by linarith
  qed
  show ?thesis unfolding n_def [symmetric]
  proof (intro set_eqI iffI)
    fix x assume "x \<in> set (map (\<lambda>i. start - int i * step) [0..<n])"
    then obtain i where "i < n" "x = start - int i * step" by auto
    then show "x \<in> {x. \<exists>i::nat. x = start - int i * step \<and> 0 < x}"
      using lt by auto
  next
    fix x assume "x \<in> {x. \<exists>i::nat. x = start - int i * step \<and> 0 < x}"
    then obtain i :: nat where i: "x = start - int i * step" "0 < x" by auto
    then have "i < n" using lt by simp
    then show "x \<in> set (map (\<lambda>i. start - int i * step) [0..<n])" using i(1) by auto
  qed
qed

lemma arange_down_distinct:
  assumes "0 < (step::int)"
  shows "distinct (map (\<lambda>i. start - int i * step) [0..<n])"
proof -
  have "inj_on (\<lambda>i. start - int i * step) (set [0..<n])"
    using assms by (auto simp: inj_on_def)
  then show ?thesis by (simp add: distinct_map)
qed

text \<open>
  Claim C3. For a positive knot distance and a positive cutoff, the knot placer at
  \<open>'end_point'\<close> returns, in ascending order, exactly the indices
  \<open>cutoff - 1, cutoff - 1 - knot_distance, \<dots>\<close> that are positive; for any location other
  than \<open>'mid_point'\<close> and \<open>'end_point'\<close> it raises instead of returning a sequence (the
  exception is a \<open>ModelException\<close> with the message \<open>Invalid knots segment option.\<close>).
\<close>

theorem end_point_knots:
  "(0 < knots_distance \<and> 0 < cutoff \<longrightarrow>
      (\<exists>ks. set_knots_tp knots_distance cutoff ''end_point'' = Inr ks
         \<and> sorted_wrt (<) ks
         \<and> set ks = {x. \<exists>i::nat. x = cutoff - 1 - int i * knots_distance \<and> 0 < x}))
   \<and> (loc \<noteq> ''mid_point'' \<and> loc \<noteq> ''end_point'' \<longrightarrow>
      set_knots_tp knots_distance cutoff loc
        = Inl (ModelException ''Invalid knots segment option.''))"
proof (intro conjI impI)
  assume a: "0 < knots_distance \<and> 0 < cutoff"
  let ?xs = "map (\<lambda>i. cutoff - 1 - int i * knots_distance)
               [0..<nat \<lceil>(of_int (cutoff - 1) :: rat) / of_int knots_distance\<rceil>]"
  from a have kd: "0 < knots_distance" by simp
  have res: "set_knots_tp knots_distance cutoff ''end_point'' = Inr (sort ?xs)"
    using arange_down [OF kd, of "cutoff - 1"] by (simp add: set_knots_tp_def)
  have srt: "sorted_wrt (<) (sort ?xs)"
    using arange_down_distinct [OF kd] by (simp add: strict_sorted_iff)
  have mem: "set (sort ?xs) = {x. \<exists>i::nat. x = cutoff - 1 - int i * knots_distance \<and> 0 < x}"
    using arange_down_mem [OF kd, of "cutoff - 1"] by simp
  show "\<exists>ks. set_knots_tp knots_distance cutoff ''end_point'' = Inr ks
         \<and> sorted_wrt (<) ks
         \<and> set ks = {x. \<exists>i::nat. x = cutoff - 1 - int i * knots_distance \<and> 0 < x}"
    using res srt mem by (intro exI [of _ "sort ?xs"] conjI)
next
  assume "loc \<noteq> ''mid_point'' \<and> loc \<noteq> ''end_point''"
  then show "set_knots_tp knots_distance cutoff loc
        = Inl (ModelException ''Invalid knots segment option.'')"
    by (simp add: set_knots_tp_def)
qed

theorem end_point_knots_witness:
  "(0::int) < 3 \<and> (0::int) < 10 \<and> ''middle'' \<noteq> ''mid_point'' \<and> ''middle'' \<noteq> ''end_point''
   \<and> (\<exists>ks. set_knots_tp 3 10 ''end_point'' = Inr ks \<and> sorted_wrt (<) ks
         \<and> set ks = {x. \<exists>i::nat. x = 10 - 1 - int i * 3 \<and> 0 < x})
   \<and> set_knots_tp 3 10 ''middle'' = Inl (ModelException ''Invalid knots segment option.'')"
proof -
  have h1: "(0::int) < 3 \<and> (0::int) < 10" by simp
  have h2: "''middle'' \<noteq> ''mid_point'' \<and> ''middle'' \<noteq> ''end_point''" by simp
  show ?thesis
    using h1 h2 end_point_knots [of 3 10 "''middle''"] by blast
qed

section \<open>Properties of the kernel assembly\<close>

lemma ebind_Inr_iff: "ebind r f = Inr y \<longleftrightarrow> (\<exists>x. r = Inr x \<and> f x = Inr y)"
  by (cases r) (simp_all add: ebind_def)

lemma ebind_Inl [simp]: "ebind (Inl e) f = Inl e"
  by (simp add: ebind_def)

lemma ebind_Inr [simp]: "ebind (Inr x) f = f x"
  by (simp add: ebind_def)

lemma knots_distance_of_eq:
  "knots_distance_of knot_length span_width c =
     (if knot_length = None \<and> (span_width = 0 \<or> py_round (1 / span_width) = 0)
      then Inl ZeroDivisionError
      else Inr (spec_knot_distance knot_length span_width c))"
  by (simp add: knots_distance_of_def spec_knot_distance_def ceil_div_def split: option.split)

lemma knots_distance_of_Inr:
  "knots_distance_of knot_length span_width c = Inr d \<Longrightarrow> d = spec_knot_distance knot_length span_width c"
  by (simp add: knots_distance_of_eq split: if_splits)

lemma set_level_knots_index:
  assumes "level_knot_dates' m = None" and "set_level_knots ext m df meta = Inr m1"
  shows "\<exists>ks. set_knots_tp (spec_knot_distance (level_knot_length m) (span_level m)
                 (num_of_observations meta)) (num_of_observations meta) (knot_location m) = Inr ks
           \<and> knots_idx_level' m1 = Some ks
           \<and> knots_tp_level m1 = Some (knots_tp_of ks (num_of_observations meta))
           \<and> num_of_regressors m1 = num_of_regressors m
           \<and> coefficients_knot_length m1 = coefficients_knot_length m
           \<and> span_coefficients m1 = span_coefficients m
           \<and> knot_location m1 = knot_location m"
proof -
  from assms obtain kd ks ds where
    kd: "knots_distance_of (level_knot_length m) (span_level m) (num_of_observations meta) = Inr kd"
    and ks: "set_knots_tp kd (num_of_observations meta) (knot_location m) = Inr ks"
    and ds: "np_take (dates df) ks = Inr ds"
    and m1: "m1 = m\<lparr>knots_idx_level' := Some ks,
                     knots_tp_level := Some (knots_tp_of ks (num_of_observations meta)),
                     level_knot_dates' := Some ds\<rparr>"
    by (auto simp: set_level_knots_def ebind_Inr_iff)
  from kd have "kd = spec_knot_distance (level_knot_length m) (span_level m) (num_of_observations meta)"
    by (rule knots_distance_of_Inr)
  with ks m1 show ?thesis by simp
qed

lemma set_coefficient_knots_index:
  assumes "set_coefficient_knots ext m df meta tp = Inr m2"
  shows "knots_idx_level' m2 = knots_idx_level' m
     \<and> (0 < num_of_regressors m \<longrightarrow>
          (\<exists>ks. set_knots_tp (spec_knot_distance (coefficients_knot_length m) (span_coefficients m)
                   (num_of_observations meta)) (num_of_observations meta) (knot_location m) = Inr ks
             \<and> knots_idx_coef' m2 = Some ks
             \<and> knots_tp_coefficients m2 = Some (knots_tp_of ks (num_of_observations meta))))"
proof (cases "0 < num_of_regressors m")
  case False
  with assms show ?thesis
    by (auto simp: set_coefficient_knots_def ebind_Inr_iff Let_def)
next
  case True
  with assms obtain z kd ks ds where
    kd: "knots_distance_of (coefficients_knot_length m) (span_coefficients m) (num_of_observations meta) = Inr kd"
    and ks: "set_knots_tp kd (num_of_observations meta) (knot_location m) = Inr ks"
    and m2: "m2 = m\<lparr>kernel_coefficients := Some z, num_knots_coefficients := Some 0,
                     knots_idx_coef' := Some ks,
                     knots_tp_coefficients := Some (knots_tp_of ks (num_of_observations meta)),
                     coef_knot_dates' := Some ds,
                     kernel_coefficients := Some (sandwich_kernel ext tp (knots_tp_of ks (num_of_observations meta))),
                     num_knots_coefficients :=
                       Some (length (knots_tp_of ks (num_of_observations meta)))\<rparr>"
    by (auto simp: set_coefficient_knots_def ebind_Inr_iff Let_def)
  from kd have "kd = spec_knot_distance (coefficients_knot_length m) (span_coefficients m) (num_of_observations meta)"
    by (rule knots_distance_of_Inr)
  with ks m2 True show ?thesis by simp
qed

lemma set_level_knots_frame:
  assumes "set_level_knots ext m df meta = Inr m1"
  shows "num_of_regressors m1 = num_of_regressors m
     \<and> coefficients_knot_length m1 = coefficients_knot_length m
     \<and> span_coefficients m1 = span_coefficients m
     \<and> knot_location m1 = knot_location m"
proof (cases "level_knot_dates' m")
  case None
  with assms show ?thesis
    by (auto simp: set_level_knots_def ebind_Inr_iff)
next
  case (Some ds)
  with assms show ?thesis
    by (auto simp: set_level_knots_def ebind_Inr_iff)
qed

lemma set_kernel_matrix_steps:
  assumes "set_kernel_matrix ext m df meta = Inr m'"
  obtains m1 tp kl where
    "set_level_knots ext (m\<lparr>cutoff' := Some (num_of_observations meta)\<rparr>) df meta = Inr m1"
    "set_coefficient_knots ext (m1\<lparr>kernel_level := Some kl,
        num_knots_level := Some (length (case knots_tp_level m1 of None \<Rightarrow> [] | Some tps \<Rightarrow> tps))\<rparr>)
        df meta tp = Inr m'"
  using assms by (auto simp: set_kernel_matrix_def ebind_Inr_iff Let_def)

lemma concrete_round: "py_round (1 / (1 / 4)) = 4"
  by (simp add: py_round_def)

lemma concrete_distance: "knots_distance_of None (1 / 4) 10 = Inr 3"
  by code_simp

lemma concrete_knots: "set_knots_tp 3 10 ''mid_point'' = Inr [2, 5, 8]"
  by code_simp

text \<open>
  Claim C4. For the level term and for the coefficient term, the knot distance passed to the
  knot placer is the configured knot length when there is one, and otherwise
  \<open>ceil(cutoff / round(1 / span))\<close> with \<open>cutoff = num_of_observations\<close>; the
  derivation raises only on a zero divisor. With a cutoff of 10 and a span of 1/4 the distance
  is 3 and three knots are placed, one fewer than \<open>round(1 / span) = 4\<close>.
\<close>

theorem knot_distance_derivation:
  "knots_distance_of knot_length span_width c =
     (if knot_length = None \<and> (span_width = 0 \<or> py_round (1 / span_width) = 0)
      then Inl ZeroDivisionError
      else Inr (spec_knot_distance knot_length span_width c))
   \<and> (set_kernel_matrix ext m df meta = Inr m' \<and> level_knot_dates' m = None \<longrightarrow>
        (\<exists>ks. set_knots_tp (spec_knot_distance (level_knot_length m) (span_level m)
                 (num_of_observations meta)) (num_of_observations meta) (knot_location m) = Inr ks
           \<and> knots_idx_level' m' = Some ks))
   \<and> (set_kernel_matrix ext m df meta = Inr m' \<and> 0 < num_of_regressors m \<longrightarrow>
        (\<exists>ks. set_knots_tp (spec_knot_distance (coefficients_knot_length m) (span_coefficients m)
                 (num_of_observations meta)) (num_of_observations meta) (knot_location m) = Inr ks
           \<and> knots_idx_coef' m' = Some ks))
   \<and> py_round (1 / (1 / 4)) = 4
   \<and> knots_distance_of None (1 / 4) 10 = Inr 3
   \<and> set_knots_tp 3 10 ''mid_point'' = Inr [2, 5, 8]"
proof (intro conjI impI)
  show "knots_distance_of knot_length span_width c =
     (if knot_length = None \<and> (span_width = 0 \<or> py_round (1 / span_width) = 0)
      then Inl ZeroDivisionError
      else Inr (spec_knot_distance knot_length span_width c))"
    by (rule knots_distance_of_eq)
next
  assume a: "set_kernel_matrix ext m df meta = Inr m' \<and> level_knot_dates' m = None"
  then obtain m1 tp kl where
    lev: "set_level_knots ext (m\<lparr>cutoff' := Some (num_of_observations meta)\<rparr>) df meta = Inr m1"
    and coef: "set_coefficient_knots ext (m1\<lparr>kernel_level := Some kl,
        num_knots_level := Some (length (case knots_tp_level m1 of None \<Rightarrow> [] | Some tps \<Rightarrow> tps))\<rparr>)
        df meta tp = Inr m'"
    by (blast elim: set_kernel_matrix_steps)
  from a have "level_knot_dates' (m\<lparr>cutoff' := Some (num_of_observations meta)\<rparr>) = None" by simp
  from set_level_knots_index [OF this lev] obtain ks where
    ks: "set_knots_tp (spec_knot_distance (level_knot_length m) (span_level m)
           (num_of_observations meta)) (num_of_observations meta) (knot_location m) = Inr ks"
    and idx: "knots_idx_level' m1 = Some ks"
    by auto
  from set_coefficient_knots_index [OF coef] idx have "knots_idx_level' m' = Some ks" by simp
  with ks show "\<exists>ks. set_knots_tp (spec_knot_distance (level_knot_length m) (span_level m)
                 (num_of_observations meta)) (num_of_observations meta) (knot_location m) = Inr ks
           \<and> knots_idx_level' m' = Some ks"
    by blast
next
  assume a: "set_kernel_matrix ext m df meta = Inr m' \<and> 0 < num_of_regressors m"
  then obtain m1 tp kl where
    lev: "set_level_knots ext (m\<lparr>cutoff' := Some (num_of_observations meta)\<rparr>) df meta = Inr m1"
    and coef: "set_coefficient_knots ext (m1\<lparr>kernel_level := Some kl,
        num_knots_level := Some (length (case knots_tp_level m1 of None \<Rightarrow> [] | Some tps \<Rightarrow> tps))\<rparr>)
        df meta tp = Inr m'"
    by (blast elim: set_kernel_matrix_steps)
  from set_level_knots_frame [OF lev] a
  have fr: "0 < num_of_regressors m1" "coefficients_knot_length m1 = coefficients_knot_length m"
    "span_coefficients m1 = span_coefficients m" "knot_location m1 = knot_location m"
    by simp_all
  from set_coefficient_knots_index [OF coef] fr
  show "\<exists>ks. set_knots_tp (spec_knot_distance (coefficients_knot_length m) (span_coefficients m)
                 (num_of_observations meta)) (num_of_observations meta) (knot_location m) = Inr ks
           \<and> knots_idx_coef' m' = Some ks"
    by auto
next
  show "py_round (1 / (1 / 4)) = 4" by (rule concrete_round)
next
  show "knots_distance_of None (1 / 4) 10 = Inr 3" by (rule concrete_distance)
next
  show "set_knots_tp 3 10 ''mid_point'' = Inr [2, 5, 8]" by (rule concrete_knots)
qed

theorem knot_distance_derivation_witness:
  "set_kernel_matrix example_ext example_model example_df example_meta = Inr example_kernels
   \<and> level_knot_dates' example_model = None
   \<and> 0 < num_of_regressors example_model
   \<and> (\<exists>ks. set_knots_tp (spec_knot_distance (level_knot_length example_model)
                (span_level example_model) (num_of_observations example_meta))
                (num_of_observations example_meta) (knot_location example_model) = Inr ks
          \<and> knots_idx_level' example_kernels = Some ks)
   \<and> (\<exists>ks. set_knots_tp (spec_knot_distance (coefficients_knot_length example_model)
                (span_coefficients example_model) (num_of_observations example_meta))
                (num_of_observations example_meta) (knot_location example_model) = Inr ks
          \<and> knots_idx_coef' example_kernels = Some ks)"
proof -
  have h1: "set_kernel_matrix example_ext example_model example_df example_meta = Inr example_kernels"
    by code_simp
  have h2: "level_knot_dates' example_model = None"
    by code_simp
  have h3: "0 < num_of_regressors example_model"
    by code_simp
  note T = knot_distance_derivation
    [of None 1 0 example_ext example_model example_df example_meta example_kernels]
  from T h1 h2 have A: "\<exists>ks. set_knots_tp (spec_knot_distance (level_knot_length example_model)
                (span_level example_model) (num_of_observations example_meta))
                (num_of_observations example_meta) (knot_location example_model) = Inr ks
          \<and> knots_idx_level' example_kernels = Some ks"
    by blast
  from T h1 h3 have B: "\<exists>ks. set_knots_tp (spec_knot_distance (coefficients_knot_length example_model)
                (span_coefficients example_model) (num_of_observations example_meta))
                (num_of_observations example_meta) (knot_location example_model) = Inr ks
          \<and> knots_idx_coef' example_kernels = Some ks"
    by blast
  from h1 h2 h3 A B show ?thesis by (intro conjI)
qed

section \<open>Properties of the construction\<close>

lemma list_ex_zip_nth:
  assumes "length xs = length ys"
  shows "list_ex (\<lambda>(x, y). P x y) (zip xs ys) \<longleftrightarrow> (\<exists>k<length xs. P (xs ! k) (ys ! k))"
  using assms by (auto simp: list_ex_iff set_zip)


lemma set_default_args_listed:
  assumes "seasonality a = Listed ss" and "seasonality_fs_order a = Listed os"
  shows "set_default_args a =
     (if length os \<noteq> length ss then
        Inl (IllegalArgument ''length of seasonality and fs_order not matching'')
      else if list_ex (\<lambda>(order, s). s - 1 < 2 * of_int order) (zip os ss) then
        Inl (IllegalArgument ''reduce seasonality_fs_order to avoid over-fitting'')
      else
        ebind (broadcast_scale (seasonal_initial_knot_scale a) (length ss)) (\<lambda>initial_scale.
        ebind (broadcast_scale (seasonal_knot_scale a) (length ss)) (\<lambda>knot_scale.
        Inr (ss, os, initial_scale, knot_scale))))"
  using assms by (simp add: set_default_args_def)

lemma set_default_args_Inr:
  assumes "set_default_args a = Inr (seas, orders, initial_scale, knot_scale)"
  shows "seas = (case seasonality a of Absent \<Rightarrow> [] | Scalar s \<Rightarrow> [s] | Listed ss \<Rightarrow> ss)"
    and "length orders = length seas"
    and "\<not> list_ex (\<lambda>(order, s). s - 1 < 2 * of_int order) (zip orders seas)"
    and "broadcast_scale (seasonal_initial_knot_scale a) (length seas) = Inr initial_scale"
    and "broadcast_scale (seasonal_knot_scale a) (length seas) = Inr knot_scale"
  using assms
  by (auto simp: set_default_args_def Let_def ebind_def
      split: arg.splits if_splits sum.splits)


lemma py_get_nat: "py_get xs (int n) = (if n < length xs then Inr (xs ! n) else Inl IndexError)"
  by (simp add: py_get_def)

lemma seasonality_loop_private:
  "seasonality_loop ext ps m = Inr m' \<Longrightarrow>
     seasonality_fs_order' m' = seasonality_fs_order' m
     \<and> seasonal_initial_knot_scale' m' = seasonal_initial_knot_scale' m
     \<and> seasonal_knot_scale' m' = seasonal_knot_scale' m
     \<and> seasonality' m' = seasonality' m
     \<and> level_knot_dates' m' = level_knot_dates' m"
proof (induction ext ps m rule: seasonality_loop.induct)
  case (1 ext m)
  then show ?case by simp
next
  case (2 ext idx s rest m)
  from "2.prems" obtain order a b where
    o: "py_get (seasonality_fs_order' m) (int idx) = Inr order"
    and a: "py_get (seasonal_initial_knot_scale' m) (int idx) = Inr a"
    and b: "py_get (seasonal_knot_scale' m) (int idx) = Inr b"
    by (auto split: sum.splits)
  from "2.prems" "2.IH" [OF o a b refl] o a b show ?case
    by (simp add: Let_def)
qed

lemma seasonality_loop_total:
  "seasonality_loop ext (enumerate n xs) m =
     (if xs = [] \<or> (n + length xs \<le> length (seasonality_fs_order' m)
                    \<and> n + length xs \<le> length (seasonal_initial_knot_scale' m)
                    \<and> n + length xs \<le> length (seasonal_knot_scale' m))
      then Inr (projr (seasonality_loop ext (enumerate n xs) m))
      else Inl IndexError)"
proof (induction xs arbitrary: n m)
  case Nil
  then show ?case by simp
next
  case (Cons x xs)
  show ?case
  proof (cases "n < length (seasonality_fs_order' m) \<and> n < length (seasonal_initial_knot_scale' m)
                 \<and> n < length (seasonal_knot_scale' m)")
    case False
    then show ?thesis by (auto simp: py_get_nat)
  next
    case True
    let ?m = "m\<lparr>coefficients_initial_knot_scale :=
                     coefficients_initial_knot_scale m @
                       replicate (2 * nat (seasonality_fs_order' m ! n)) (seasonal_initial_knot_scale' m ! n),
                   coefficients_knot_scale :=
                     coefficients_knot_scale m @
                       replicate (2 * nat (seasonality_fs_order' m ! n)) (seasonal_knot_scale' m ! n),
                   regressor_col := regressor_col m @
                     concat (map (\<lambda>i. [''seas'' @ str_num ext x @ ''_fs_cos'' @ str_int i,
                                        ''seas'' @ str_num ext x @ ''_fs_sin'' @ str_int i])
                              [1..seasonality_fs_order' m ! n]),
                   regressor_col_gp := regressor_col_gp m @
                     [concat (map (\<lambda>i. [''seas'' @ str_num ext x @ ''_fs_cos'' @ str_int i,
                                        ''seas'' @ str_num ext x @ ''_fs_sin'' @ str_int i])
                              [1..seasonality_fs_order' m ! n])]\<rparr>"
    have step: "seasonality_loop ext (enumerate n (x # xs)) m = seasonality_loop ext (enumerate (Suc n) xs) ?m"
      using True by (simp add: py_get_nat Let_def)
    show ?thesis
      unfolding step using Cons.IH [of "Suc n" ?m] True
      by (cases "xs = []") auto
  qed
qed


lemma seasonality_loop_ok:
  assumes "xs = [] \<or> (n + length xs \<le> length (seasonality_fs_order' m)
                    \<and> n + length xs \<le> length (seasonal_initial_knot_scale' m)
                    \<and> n + length xs \<le> length (seasonal_knot_scale' m))"
  shows "\<exists>m'. seasonality_loop ext (enumerate n xs) m = Inr m'"
  by (subst seasonality_loop_total) (use assms in simp)

lemma seasonality_loop_fail:
  assumes "\<not> (xs = [] \<or> (n + length xs \<le> length (seasonality_fs_order' m)
                    \<and> n + length xs \<le> length (seasonal_initial_knot_scale' m)
                    \<and> n + length xs \<le> length (seasonal_knot_scale' m)))"
  shows "seasonality_loop ext (enumerate n xs) m = Inl IndexError"
  by (subst seasonality_loop_total) (use assms in simp)

lemma set_seasonality_attributes_ok:
  assumes "length (seasonality_fs_order' m) = length (seasonality' m)"
    and "seasonality' m = [] \<or> (length (seasonality' m) \<le> length (seasonal_initial_knot_scale' m)
                                \<and> length (seasonality' m) \<le> length (seasonal_knot_scale' m))"
  shows "\<exists>m'. set_seasonality_attributes ext m = Inr m'"
proof -
  let ?m0 = "m\<lparr>regressor_col_gp := [], regressor_col := [],
                 coefficients_initial_knot_scale := [], coefficients_knot_scale := []\<rparr>"
  have "\<exists>m'. seasonality_loop ext (enumerate 0 (seasonality' m)) ?m0 = Inr m'"
    by (rule seasonality_loop_ok) (use assms in auto)
  then obtain m1 where "seasonality_loop ext (enumerate 0 (seasonality' m)) ?m0 = Inr m1" ..
  then show ?thesis by (simp add: set_seasonality_attributes_def Let_def)
qed

lemma set_seasonality_attributes_fail:
  assumes "length (seasonality_fs_order' m) = length (seasonality' m)"
    and "\<not> (seasonality' m = [] \<or> (length (seasonality' m) \<le> length (seasonal_initial_knot_scale' m)
                                \<and> length (seasonality' m) \<le> length (seasonal_knot_scale' m)))"
  shows "set_seasonality_attributes ext m = Inl IndexError"
proof -
  let ?m0 = "m\<lparr>regressor_col_gp := [], regressor_col := [],
                 coefficients_initial_knot_scale := [], coefficients_knot_scale := []\<rparr>"
  have "seasonality_loop ext (enumerate 0 (seasonality' m)) ?m0 = Inl IndexError"
    by (rule seasonality_loop_fail) (use assms in auto)
  with assms(2) show ?thesis by (simp add: set_seasonality_attributes_def Let_def)
qed

lemma ktrlite_init_ok:
  assumes "set_default_args a = Inr (seas, orders, initial_scale, knot_scale)"
    and "seas = [] \<or> (length seas \<le> length initial_scale \<and> length seas \<le> length knot_scale)"
  shows "\<exists>m. ktrlite_init ext a = Inr m"
proof -
  from assms(1) have len: "length orders = length seas"
    by (rule set_default_args_Inr(2))
  show ?thesis
    unfolding ktrlite_init_def assms(1)
    by (simp, rule set_seasonality_attributes_ok) (use len assms(2) in simp_all)
qed

lemma ktrlite_init_index_error:
  assumes "set_default_args a = Inr (seas, orders, initial_scale, knot_scale)"
    and "\<not> (seas = [] \<or> (length seas \<le> length initial_scale \<and> length seas \<le> length knot_scale))"
  shows "ktrlite_init ext a = Inl IndexError"
proof -
  from assms(1) have len: "length orders = length seas"
    by (rule set_default_args_Inr(2))
  show ?thesis
    unfolding ktrlite_init_def assms(1)
    by (simp, rule set_seasonality_attributes_fail) (use len assms(2) in simp_all)
qed

lemma ktrlite_init_Inl:
  "set_default_args a = Inl e \<Longrightarrow> ktrlite_init ext a = Inl e"
  by (simp add: ktrlite_init_def)

text \<open>
  Claim C6. For a seasonality list and a fourier-order list of equal length, construction
  raises the over-fitting error as soon as \<open>2 * order[k] > seasonality[k] - 1\<close> at some
  index, succeeds only if \<open>2 * order[k] \<le> seasonality[k] - 1\<close> at every index, and (with
  prior scales given as numbers) does succeed then.
\<close>

theorem fourier_order_check:
  assumes sl: "seasonality a = Listed ss"
    and ol: "seasonality_fs_order a = Listed os"
    and len: "length ss = length os"
  shows "((\<exists>k<length os. ss ! k - 1 < 2 * of_int (os ! k)) \<longrightarrow>
            ktrlite_init ext a
              = Inl (IllegalArgument ''reduce seasonality_fs_order to avoid over-fitting''))
       \<and> ((\<exists>m. ktrlite_init ext a = Inr m) \<longrightarrow>
            (\<forall>k<length os. 2 * of_int (os ! k) \<le> ss ! k - 1))
       \<and> ((\<forall>k<length os. 2 * of_int (os ! k) \<le> ss ! k - 1)
            \<and> (\<exists>v. seasonal_initial_knot_scale a = Scalar v)
            \<and> (\<exists>w. seasonal_knot_scale a = Scalar w) \<longrightarrow>
            (\<exists>m. ktrlite_init ext a = Inr m))"
proof (intro conjI impI)
  note D = set_default_args_listed [OF sl ol]
  note Z = list_ex_zip_nth [of os ss "\<lambda>order s. s - 1 < 2 * of_int order", OF len [symmetric]]
  {
    assume "\<exists>k<length os. ss ! k - 1 < 2 * of_int (os ! k)"
    then have "list_ex (\<lambda>(order, s). s - 1 < 2 * of_int order) (zip os ss)"
      using Z by simp
    then have "set_default_args a
                 = Inl (IllegalArgument ''reduce seasonality_fs_order to avoid over-fitting'')"
      using D len by simp
    then show "ktrlite_init ext a
                 = Inl (IllegalArgument ''reduce seasonality_fs_order to avoid over-fitting'')"
      by (rule ktrlite_init_Inl)
  }
  {
    assume "\<exists>m. ktrlite_init ext a = Inr m"
    then obtain m where m: "ktrlite_init ext a = Inr m" ..
    have "\<not> list_ex (\<lambda>(order, s). s - 1 < 2 * of_int order) (zip os ss)"
    proof
      assume "list_ex (\<lambda>(order, s). s - 1 < 2 * of_int order) (zip os ss)"
      then have "set_default_args a
                 = Inl (IllegalArgument ''reduce seasonality_fs_order to avoid over-fitting'')"
        using D len by simp
      then have "ktrlite_init ext a
                 = Inl (IllegalArgument ''reduce seasonality_fs_order to avoid over-fitting'')"
        by (rule ktrlite_init_Inl)
      with m show False by simp
    qed
    then have "\<not> (\<exists>k<length os. ss ! k - 1 < 2 * of_int (os ! k))"
      unfolding Z .
    then show "\<forall>k<length os. 2 * of_int (os ! k) \<le> ss ! k - 1"
      by (meson not_less)
  }
  {
    assume ok: "(\<forall>k<length os. 2 * of_int (os ! k) \<le> ss ! k - 1)
            \<and> (\<exists>v. seasonal_initial_knot_scale a = Scalar v)
            \<and> (\<exists>w. seasonal_knot_scale a = Scalar w)"
    then obtain v w where v: "seasonal_initial_knot_scale a = Scalar v"
      and w: "seasonal_knot_scale a = Scalar w" by blast
    have "\<not> list_ex (\<lambda>(order, s). s - 1 < 2 * of_int order) (zip os ss)"
    proof
      assume "list_ex (\<lambda>(order, s). s - 1 < 2 * of_int order) (zip os ss)"
      then obtain k where "k < length os" "ss ! k - 1 < 2 * of_int (os ! k)"
        using Z by blast
      with ok show False by (simp add: not_less [symmetric])
    qed
    then have "set_default_args a
                 = Inr (ss, os, replicate (length ss) v, replicate (length ss) w)"
      using D len v w by (simp add: broadcast_scale_def)
    then show "\<exists>m. ktrlite_init ext a = Inr m"
      by (rule ktrlite_init_ok) simp
  }
qed

theorem fourier_order_check_witness:
  "ktrlite_init example_ext high_order_args
     = Inl (IllegalArgument ''reduce seasonality_fs_order to avoid over-fitting'')
   \<and> [7] ! 0 - 1 < 2 * (of_int ([4] ! 0) :: rat)
   \<and> (\<exists>m. ktrlite_init example_ext listed_order_args = Inr m)
   \<and> 2 * (of_int ([2] ! 0) :: rat) \<le> [7] ! 0 - 1"
proof -
  have bad: "seasonality high_order_args = Listed [7]"
      "seasonality_fs_order high_order_args = Listed [4]" "length [7::rat] = length [4::int]"
    by (simp_all add: high_order_args_def example_args_def)
  have good: "seasonality listed_order_args = Listed [7]"
      "seasonality_fs_order listed_order_args = Listed [2]" "length [7::rat] = length [2::int]"
    by (simp_all add: listed_order_args_def example_args_def)
  have "seasonal_initial_knot_scale listed_order_args = Scalar 1"
      "seasonal_knot_scale listed_order_args = Scalar (1 / 10)"
    by (simp_all add: listed_order_args_def example_args_def)
  then have sc: "\<exists>v. seasonal_initial_knot_scale listed_order_args = Scalar v"
      "\<exists>w. seasonal_knot_scale listed_order_args = Scalar w"
    by blast+
  have viol: "\<exists>k<length [4::int]. [7] ! k - 1 < 2 * (of_int ([4] ! k) :: rat)"
    by (rule exI [of _ 0]) simp
  have fine: "\<forall>k<length [2::int]. 2 * (of_int ([2] ! k) :: rat) \<le> [7] ! k - 1"
    by simp
  from fourier_order_check [OF bad, of example_ext] viol
  have A: "ktrlite_init example_ext high_order_args
     = Inl (IllegalArgument ''reduce seasonality_fs_order to avoid over-fitting'')"
    by blast
  from fourier_order_check [OF good, of example_ext] fine sc
  have B: "\<exists>m. ktrlite_init example_ext listed_order_args = Inr m"
    by blast
  from A B show ?thesis by simp
qed

text \<open>
  Claim C8, as stated, fails: a scalar fourier order is not wrapped when no seasonality is
  given. With \<open>seasonality=None\<close> and \<open>seasonality_fs_order=3\<close> the order list is
  empty, not \<open>[3]\<close>.
\<close>

theorem scalar_order_dropped:
  "seasonality_fs_order order_only_args = Scalar 3
   \<and> set_default_args order_only_args = Inr ([], [], [], [])
   \<and> map_sum id seasonality_fs_order' (ktrlite_init example_ext order_only_args) = Inr []
   \<and> map_sum id seasonality_fs_order' (ktrlite_init example_ext order_only_args) \<noteq> Inr [3]"
  by code_simp

text \<open>
  Claim C8, amended. A scalar seasonality is wrapped into a one-element list; a scalar
  fourier order is wrapped into a one-element list when a seasonality is given (without a
  seasonality both lists are empty, whatever the order); when the seasonality list is
  non-empty and no order is given, every order is 2, so that a scalar seasonality with no
  order normalises as the one-element list with order \<open>[2]\<close>; and construction raises the
  length error whenever the order list and the seasonality list differ in length.
\<close>

theorem default_args_normalisation:
  "(set_default_args a = Inr (seas, orders, initial_scale, knot_scale) \<longrightarrow>
       (\<forall>s. seasonality a = Scalar s \<longrightarrow> seas = [s])
     \<and> (\<forall>order. seasonality a \<noteq> Absent \<and> seasonality_fs_order a = Scalar order \<longrightarrow> orders = [order])
     \<and> (seasonality a = Absent \<longrightarrow> seas = [] \<and> orders = [])
     \<and> (seas \<noteq> [] \<and> seasonality_fs_order a = Absent \<longrightarrow> orders = replicate (length seas) 2))
   \<and> set_default_args (a\<lparr>seasonality := Scalar s, seasonality_fs_order := Absent\<rparr>)
       = set_default_args (a\<lparr>seasonality := Listed [s], seasonality_fs_order := Listed [2]\<rparr>)
   \<and> (seasonality a = Listed ss \<and> seasonality_fs_order a = Listed os \<and> length os \<noteq> length ss \<longrightarrow>
        ktrlite_init ext a = Inl (IllegalArgument ''length of seasonality and fs_order not matching''))
   \<and> (seasonality a = Listed ss \<and> seasonality_fs_order a = Scalar order \<and> length ss \<noteq> 1 \<longrightarrow>
        ktrlite_init ext a = Inl (IllegalArgument ''length of seasonality and fs_order not matching''))
   \<and> (seasonality a = Scalar s \<and> seasonality_fs_order a = Listed os \<and> length os \<noteq> 1 \<longrightarrow>
        ktrlite_init ext a = Inl (IllegalArgument ''length of seasonality and fs_order not matching''))"
proof (intro conjI)
  show "set_default_args a = Inr (seas, orders, initial_scale, knot_scale) \<longrightarrow>
       (\<forall>s. seasonality a = Scalar s \<longrightarrow> seas = [s])
     \<and> (\<forall>order. seasonality a \<noteq> Absent \<and> seasonality_fs_order a = Scalar order \<longrightarrow> orders = [order])
     \<and> (seasonality a = Absent \<longrightarrow> seas = [] \<and> orders = [])
     \<and> (seas \<noteq> [] \<and> seasonality_fs_order a = Absent \<longrightarrow> orders = replicate (length seas) 2)"
    by (auto simp: set_default_args_def Let_def ebind_def split: arg.splits if_splits sum.splits)
  show "set_default_args (a\<lparr>seasonality := Scalar s, seasonality_fs_order := Absent\<rparr>)
       = set_default_args (a\<lparr>seasonality := Listed [s], seasonality_fs_order := Listed [2]\<rparr>)"
    by (simp add: set_default_args_def)
  show "seasonality a = Listed ss \<and> seasonality_fs_order a = Listed os \<and> length os \<noteq> length ss \<longrightarrow>
        ktrlite_init ext a = Inl (IllegalArgument ''length of seasonality and fs_order not matching'')"
    by (auto intro!: ktrlite_init_Inl simp: set_default_args_def)
  show "seasonality a = Listed ss \<and> seasonality_fs_order a = Scalar order \<and> length ss \<noteq> 1 \<longrightarrow>
        ktrlite_init ext a = Inl (IllegalArgument ''length of seasonality and fs_order not matching'')"
    by (auto intro!: ktrlite_init_Inl simp: set_default_args_def)
  show "seasonality a = Scalar s \<and> seasonality_fs_order a = Listed os \<and> length os \<noteq> 1 \<longrightarrow>
        ktrlite_init ext a = Inl (IllegalArgument ''length of seasonality and fs_order not matching'')"
    by (auto intro!: ktrlite_init_Inl simp: set_default_args_def)
qed

theorem default_args_normalisation_witness:
  "set_default_args (example_args\<lparr>seasonality := Scalar 12, seasonality_fs_order := Scalar 3\<rparr>)
     = Inr ([12], [3], [1], [1 / 10])
   \<and> [12 :: rat] = [12] \<and> [3 :: int] = [3]
   \<and> set_default_args (example_args\<lparr>seasonality := Scalar 12\<rparr>) = Inr ([12], [2], [1], [1 / 10])
   \<and> [2 :: int] = replicate (length [12 :: rat]) 2
   \<and> set_default_args order_only_args = Inr ([], [], [], [])
   \<and> set_default_args (example_args\<lparr>seasonality := Scalar 12, seasonality_fs_order := Absent\<rparr>)
       = set_default_args (example_args\<lparr>seasonality := Listed [12], seasonality_fs_order := Listed [2]\<rparr>)
   \<and> ktrlite_init example_ext (example_args\<lparr>seasonality_fs_order := Listed [2, 2]\<rparr>)
       = Inl (IllegalArgument ''length of seasonality and fs_order not matching'')
   \<and> ktrlite_init example_ext (example_args\<lparr>seasonality := Listed [7, 12], seasonality_fs_order := Scalar 2\<rparr>)
       = Inl (IllegalArgument ''length of seasonality and fs_order not matching'')
   \<and> ktrlite_init example_ext (example_args\<lparr>seasonality := Scalar 7, seasonality_fs_order := Listed [1, 1]\<rparr>)
       = Inl (IllegalArgument ''length of seasonality and fs_order not matching'')"
proof -
  let ?a1 = "example_args\<lparr>seasonality := Scalar 12, seasonality_fs_order := Scalar 3\<rparr>"
  let ?a2 = "example_args\<lparr>seasonality := Scalar 12\<rparr>"
  let ?a4 = "example_args\<lparr>seasonality_fs_order := Listed [2, 2]\<rparr>"
  let ?a5 = "example_args\<lparr>seasonality := Listed [7, 12], seasonality_fs_order := Scalar 2\<rparr>"
  let ?a6 = "example_args\<lparr>seasonality := Scalar 7, seasonality_fs_order := Listed [1, 1]\<rparr>"
  have e1: "set_default_args ?a1 = Inr ([12], [3], [1], [1 / 10])" by code_simp
  have e2: "set_default_args ?a2 = Inr ([12], [2], [1], [1 / 10])" by code_simp
  have e3: "set_default_args order_only_args = Inr ([], [], [], [])" by code_simp
  have p1: "seasonality ?a1 = Scalar 12" by simp
  have p1': "seasonality ?a1 \<noteq> Absent \<and> seasonality_fs_order ?a1 = Scalar 3" by simp
  have p2: "[12 :: rat] \<noteq> [] \<and> seasonality_fs_order ?a2 = Absent"
    by (simp add: example_args_def)
  have p4: "seasonality ?a4 = Listed [7] \<and> seasonality_fs_order ?a4 = Listed [2, 2]
            \<and> length [2 :: int, 2] \<noteq> length [7 :: rat]"
    by (simp add: example_args_def)
  have p5: "seasonality ?a5 = Listed [7, 12] \<and> seasonality_fs_order ?a5 = Scalar 2
            \<and> length [7 :: rat, 12] \<noteq> 1"
    by simp
  have p6: "seasonality ?a6 = Scalar 7 \<and> seasonality_fs_order ?a6 = Listed [1, 1]
            \<and> length [1 :: int, 1] \<noteq> 1"
    by simp
  note A1 = default_args_normalisation [THEN conjunct1, THEN mp, OF e1]
  note A2 = default_args_normalisation [THEN conjunct1, THEN mp, OF e2]
  have c1: "[12 :: rat] = [12]"
    by (rule A1 [THEN conjunct1, THEN spec, THEN mp, OF p1])
  have c1': "[3 :: int] = [3]"
    by (rule A1 [THEN conjunct2, THEN conjunct1, THEN spec, THEN mp, OF p1'])
  have c2: "[2 :: int] = replicate (length [12 :: rat]) 2"
    by (rule A2 [THEN conjunct2, THEN conjunct2, THEN conjunct2, THEN mp, OF p2])
  have c3: "set_default_args (example_args\<lparr>seasonality := Scalar 12, seasonality_fs_order := Absent\<rparr>)
       = set_default_args (example_args\<lparr>seasonality := Listed [12], seasonality_fs_order := Listed [2]\<rparr>)"
    by (rule default_args_normalisation [THEN conjunct2, THEN conjunct1])
  have c4: "ktrlite_init example_ext ?a4
       = Inl (IllegalArgument ''length of seasonality and fs_order not matching'')"
    by (rule default_args_normalisation
          [THEN conjunct2, THEN conjunct2, THEN conjunct1, THEN mp, OF p4])
  have c5: "ktrlite_init example_ext ?a5
       = Inl (IllegalArgument ''length of seasonality and fs_order not matching'')"
    by (rule default_args_normalisation
          [THEN conjunct2, THEN conjunct2, THEN conjunct2, THEN conjunct1, THEN mp, OF p5])
  have c6: "ktrlite_init example_ext ?a6
       = Inl (IllegalArgument ''length of seasonality and fs_order not matching'')"
    by (rule default_args_normalisation
          [THEN conjunct2, THEN conjunct2, THEN conjunct2, THEN conjunct2, THEN mp, OF p6])
  from e1 c1 c1' e2 c2 e3 c3 c4 c5 c6 show ?thesis by (intro conjI)
qed

text \<open>
  Claim C10. A prior scale given as a number is repeated once per seasonality; a list is
  taken as it is, with no check of its length; and whenever one of the two scale lists is
  shorter than the seasonality list, construction ends in the \<open>IndexError\<close> of the
  unguarded list access, not in a configuration error. This happens for
  \<open>seasonality=[7]\<close> with \<open>seasonal_initial_knot_scale=[]\<close>.
\<close>

theorem prior_scale_broadcast:
  "(set_default_args a = Inr (seas, orders, initial_scale, knot_scale) \<longrightarrow>
       (\<forall>v. seasonal_initial_knot_scale a = Scalar v \<longrightarrow> initial_scale = replicate (length seas) v)
     \<and> (\<forall>v. seasonal_knot_scale a = Scalar v \<longrightarrow> knot_scale = replicate (length seas) v)
     \<and> (\<forall>vs. seasonal_initial_knot_scale a = Listed vs \<longrightarrow> initial_scale = vs)
     \<and> (\<forall>vs. seasonal_knot_scale a = Listed vs \<longrightarrow> knot_scale = vs)
     \<and> (length initial_scale < length seas \<or> length knot_scale < length seas \<longrightarrow>
          ktrlite_init ext a = Inl IndexError))
   \<and> set_default_args short_scale_args = Inr ([7], [2], [], [1 / 10])
   \<and> ktrlite_init example_ext short_scale_args = Inl IndexError"
proof (intro conjI impI)
  assume d: "set_default_args a = Inr (seas, orders, initial_scale, knot_scale)"
  note B = set_default_args_Inr(4,5) [OF d]
  show "\<forall>v. seasonal_initial_knot_scale a = Scalar v \<longrightarrow> initial_scale = replicate (length seas) v"
    using B(1) by (auto simp: broadcast_scale_def)
  show "\<forall>v. seasonal_knot_scale a = Scalar v \<longrightarrow> knot_scale = replicate (length seas) v"
    using B(2) by (auto simp: broadcast_scale_def)
  show "\<forall>vs. seasonal_initial_knot_scale a = Listed vs \<longrightarrow> initial_scale = vs"
    using B(1) by (auto simp: broadcast_scale_def)
  show "\<forall>vs. seasonal_knot_scale a = Listed vs \<longrightarrow> knot_scale = vs"
    using B(2) by (auto simp: broadcast_scale_def)
  assume "length initial_scale < length seas \<or> length knot_scale < length seas"
  then have "\<not> (seas = [] \<or> (length seas \<le> length initial_scale \<and> length seas \<le> length knot_scale))"
    by auto
  with d show "ktrlite_init ext a = Inl IndexError"
    by (rule ktrlite_init_index_error)
next
  show "set_default_args short_scale_args = Inr ([7], [2], [], [1 / 10])"
    by code_simp
  show "ktrlite_init example_ext short_scale_args = Inl IndexError"
    by code_simp
qed

theorem prior_scale_broadcast_witness:
  "set_default_args example_args = Inr ([7], [2], [1], [1 / 10])
   \<and> seasonal_initial_knot_scale example_args = Scalar 1
   \<and> seasonal_knot_scale example_args = Scalar (1 / 10)
   \<and> [1 :: rat] = replicate (length [7 :: rat]) 1
   \<and> [1 / 10 :: rat] = replicate (length [7 :: rat]) (1 / 10)
   \<and> set_default_args short_scale_args = Inr ([7], [2], [], [1 / 10])
   \<and> seasonal_initial_knot_scale short_scale_args = Listed []
   \<and> ktrlite_init example_ext short_scale_args = Inl IndexError"
proof -
  have e1: "set_default_args example_args = Inr ([7], [2], [1], [1 / 10])" by code_simp
  have e2: "set_default_args short_scale_args = Inr ([7], [2], [], [1 / 10])" by code_simp
  have p1: "seasonal_initial_knot_scale example_args = Scalar 1"
    by (simp add: example_args_def)
  have p1': "seasonal_knot_scale example_args = Scalar (1 / 10)"
    by (simp add: example_args_def)
  have p2: "seasonal_initial_knot_scale short_scale_args = Listed []"
    by (simp add: short_scale_args_def)
  have p3: "length ([] :: rat list) < length [7 :: rat] \<or> length [1 / 10 :: rat] < length [7 :: rat]"
    by simp
  note A1 = prior_scale_broadcast [THEN conjunct1, THEN mp, OF e1]
  note A2 = prior_scale_broadcast [THEN conjunct1, THEN mp, OF e2]
  have c1: "[1 :: rat] = replicate (length [7 :: rat]) 1"
    by (rule A1 [THEN conjunct1, THEN spec, THEN mp, OF p1])
  have c2: "[1 / 10 :: rat] = replicate (length [7 :: rat]) (1 / 10)"
    by (rule A1 [THEN conjunct2, THEN conjunct1, THEN spec, THEN mp, OF p1'])
  have c3: "ktrlite_init example_ext short_scale_args = Inl IndexError"
    by (rule A2 [THEN conjunct2, THEN conjunct2, THEN conjunct2, THEN conjunct2, THEN mp, OF p3])
  from e1 p1 p1' c1 c2 e2 p2 c3 show ?thesis by (intro conjI)
qed

section \<open>Properties of the fit pipeline\<close>

lemma nanmean_all: "vs \<noteq> [] \<Longrightarrow> nanmean (map Some vs) = Some (sum_list vs / of_nat (length vs))"
proof -
  have "concat (map (\<lambda>x. case x of None \<Rightarrow> [] | Some v \<Rightarrow> [v]) (map Some vs)) = vs"
    by (induction vs) simp_all
  then show "vs \<noteq> [] \<Longrightarrow> ?thesis" by (simp add: nanmean_def)
qed

lemma nanmean_skip: "nanmean (filter (\<lambda>x. x \<noteq> None) xs) = nanmean xs"
proof -
  have "concat (map (\<lambda>x. case x of None \<Rightarrow> [] | Some v \<Rightarrow> [v]) (filter (\<lambda>x. x \<noteq> None) xs))
        = concat (map (\<lambda>x. case x of None \<Rightarrow> [] | Some v \<Rightarrow> [v]) xs)"
    by (induction xs) (auto split: option.splits)
  then show ?thesis by (simp add: nanmean_def)
qed

text \<open>
  Claim C7. With a seasonality configured and \<open>m = round(max(seasonality))\<close>, validation
  raises exactly when \<open>num_of_observations < m\<close>, and the message of the exception holds
  both numbers; without seasonality it does not raise. When validation succeeds, the response
  offset is the mean, over the entries that are not missing, of \<open>response[:m]\<close> (the first
  \<open>m\<close> values, \<open>m\<close> being non-negative) with a seasonality and of the whole response
  without.
\<close>

theorem response_validation:
  "(seasonality' st \<noteq> [] \<longrightarrow>
      ((\<exists>e. set_validate_ktr_params st meta = Inl e)
         \<longleftrightarrow> num_of_observations meta < py_round (np_max (seasonality' st)))
    \<and> (num_of_observations meta < py_round (np_max (seasonality' st)) \<longrightarrow>
         set_validate_ktr_params st meta =
           Inl (ModelException
                 (''Number of observations '' @ str_int (num_of_observations meta) @
                  '' is less than max seasonality '' @
                  str_int (py_round (np_max (seasonality' st)))))))
   \<and> (seasonality' st = [] \<longrightarrow> (\<exists>st'. set_validate_ktr_params st meta = Inr st'))
   \<and> (set_validate_ktr_params st meta = Inr st' \<longrightarrow>
        response_offset st' =
          (if seasonality' st \<noteq> []
           then nanmean (py_slice_to (response meta) (py_round (np_max (seasonality' st))))
           else nanmean (response meta)))
   \<and> (0 \<le> k \<longrightarrow> py_slice_to xs k = take (nat k) xs)
   \<and> (vs \<noteq> [] \<longrightarrow> nanmean (map Some vs) = Some (sum_list vs / of_nat (length vs)))
   \<and> nanmean (filter (\<lambda>x. x \<noteq> None) ys) = nanmean ys"
proof (intro conjI impI)
  assume s: "seasonality' st \<noteq> []"
  then show "(\<exists>e. set_validate_ktr_params st meta = Inl e)
         \<longleftrightarrow> num_of_observations meta < py_round (np_max (seasonality' st))"
    by (simp add: set_validate_ktr_params_def Let_def)
  assume "num_of_observations meta < py_round (np_max (seasonality' st))"
  with s show "set_validate_ktr_params st meta =
           Inl (ModelException
                 (''Number of observations '' @ str_int (num_of_observations meta) @
                  '' is less than max seasonality '' @
                  str_int (py_round (np_max (seasonality' st)))))"
    by (simp add: set_validate_ktr_params_def)
next
  assume "seasonality' st = []"
  then show "\<exists>st'. set_validate_ktr_params st meta = Inr st'"
    by (simp add: set_validate_ktr_params_def Let_def)
next
  assume "set_validate_ktr_params st meta = Inr st'"
  then show "response_offset st' =
          (if seasonality' st \<noteq> []
           then nanmean (py_slice_to (response meta) (py_round (np_max (seasonality' st))))
           else nanmean (response meta))"
    by (auto simp: set_validate_ktr_params_def Let_def split: if_splits)
next
  assume "0 \<le> k"
  then show "py_slice_to xs k = take (nat k) xs" by (simp add: py_slice_to_def)
next
  assume "vs \<noteq> []"
  then show "nanmean (map Some vs) = Some (sum_list vs / of_nat (length vs))"
    by (rule nanmean_all)
next
  show "nanmean (filter (\<lambda>x. x \<noteq> None) ys) = nanmean ys" by (rule nanmean_skip)
qed


theorem response_validation_witness:
  "seasonality' example_model \<noteq> []
   \<and> num_of_observations short_meta < py_round (np_max (seasonality' example_model))
   \<and> set_validate_ktr_params example_model short_meta
       = Inl (ModelException ''Number of observations 5 is less than max seasonality 7'')
   \<and> seasonality' plain_model = []
   \<and> (\<exists>st'. set_validate_ktr_params plain_model short_meta = Inr st')
   \<and> set_validate_ktr_params period3_model short_meta = Inr period3_validated
   \<and> response_offset period3_validated = Some 3
   \<and> py_slice_to (response short_meta) 3 = take (nat 3) (response short_meta)
   \<and> nanmean (map Some [2, 4]) = Some (sum_list [2, 4] / of_nat (length [2 :: rat, 4]))"
proof -
  have h1: "seasonality' example_model \<noteq> []" by code_simp
  have h2: "num_of_observations short_meta < py_round (np_max (seasonality' example_model))"
    by code_simp
  have h3: "seasonality' plain_model = []" by code_simp
  have e3: "set_validate_ktr_params period3_model short_meta = Inr period3_validated"
    by code_simp
  have msg: "Inl (ModelException
                 (''Number of observations '' @ str_int (num_of_observations short_meta) @
                  '' is less than max seasonality '' @
                  str_int (py_round (np_max (seasonality' example_model)))))
             = (Inl (ModelException ''Number of observations 5 is less than max seasonality 7'')
                 :: error + ktrlite)"
    by code_simp
  have off: "(if seasonality' period3_model \<noteq> []
              then nanmean (py_slice_to (response short_meta)
                              (py_round (np_max (seasonality' period3_model))))
              else nanmean (response short_meta)) = Some 3"
    by code_simp
  have c1: "set_validate_ktr_params example_model short_meta
       = Inl (ModelException ''Number of observations 5 is less than max seasonality 7'')"
    by (rule trans [OF response_validation
          [THEN conjunct1, THEN mp, OF h1, THEN conjunct2, THEN mp, OF h2] msg])
  have c2: "\<exists>st'. set_validate_ktr_params plain_model short_meta = Inr st'"
    by (rule response_validation [THEN conjunct2, THEN conjunct1, THEN mp, OF h3])
  have c3: "response_offset period3_validated = Some 3"
    by (rule trans [OF response_validation
          [THEN conjunct2, THEN conjunct2, THEN conjunct1, THEN mp, OF e3] off])
  have p4: "(0 :: int) \<le> 3" by simp
  have c4: "py_slice_to (response short_meta) 3 = take (nat 3) (response short_meta)"
    by (rule response_validation
          [THEN conjunct2, THEN conjunct2, THEN conjunct2, THEN conjunct1, THEN mp, OF p4])
  have p5: "[2 :: rat, 4] \<noteq> []" by simp
  have c5: "nanmean (map Some [2, 4]) = Some (sum_list [2, 4] / of_nat (length [2 :: rat, 4]))"
    by (rule response_validation
          [THEN conjunct2, THEN conjunct2, THEN conjunct2, THEN conjunct2, THEN conjunct1,
           THEN mp, OF p5])
  from h1 h2 c1 h3 c2 e3 c3 c4 c5 show ?thesis by (intro conjI)
qed

lemma set_seasonality_attributes_empty:
  assumes "seasonality' m = []" and "set_seasonality_attributes ext m = Inr m'"
  shows "regressor_col m' = [] \<and> num_of_regressors m' = 0 \<and> seasonality' m' = []"
  using assms by (auto simp: set_seasonality_attributes_def Let_def)

lemma set_default_args_absent:
  assumes "seasonality a = Absent" and "set_default_args a = Inr (seas, orders, initial_scale, knot_scale)"
  shows "seas = []"
  using set_default_args_Inr(1) [OF assms(2)] assms(1) by simp

lemma ktrlite_init_steps:
  assumes "ktrlite_init ext a = Inr m"
  obtains seas orders initial_scale knot_scale m0 where
    "set_default_args a = Inr (seas, orders, initial_scale, knot_scale)"
    "seasonality' m0 = seas"
    "level_knot_dates' m0 = level_knot_dates a"
    "set_seasonality_attributes ext m0 = Inr m"
proof (cases "set_default_args a")
  case (Inl e)
  with assms show ?thesis by (simp add: ktrlite_init_def)
next
  case (Inr t)
  obtain seas orders initial_scale knot_scale
    where t: "t = (seas, orders, initial_scale, knot_scale)"
    by (cases t) auto
  from assms Inr t show ?thesis
    by (intro that [of seas orders initial_scale knot_scale]) (simp_all add: ktrlite_init_def)
qed

lemma set_seasonality_attributes_static:
  assumes "set_seasonality_attributes ext m = Inr m'"
  shows "seasonality' m' = seasonality' m \<and> level_knot_dates' m' = level_knot_dates' m"
proof (cases "0 < length (seasonality' m)")
  case False
  with assms show ?thesis by (auto simp: set_seasonality_attributes_def)
next
  case True
  let ?m0 = "m\<lparr>regressor_col_gp := [], regressor_col := [],
                 coefficients_initial_knot_scale := [], coefficients_knot_scale := []\<rparr>"
  from assms True obtain m1 where
    l: "seasonality_loop ext (enumerate 0 (seasonality' m)) ?m0 = Inr m1"
    and m': "m' = m1\<lparr>num_of_regressors := length (regressor_col m1)\<rparr>"
    by (auto simp: set_seasonality_attributes_def Let_def ebind_Inr_iff)
  from seasonality_loop_private [OF l] m' show ?thesis by simp
qed

lemma ktrlite_init_seasonality:
  assumes "ktrlite_init ext a = Inr m"
  shows "\<exists>orders initial_scale knot_scale.
           set_default_args a = Inr (seasonality' m, orders, initial_scale, knot_scale)"
proof -
  from assms obtain seas orders i k m0 where
    d: "set_default_args a = Inr (seas, orders, i, k)"
    and m0: "seasonality' m0 = seas"
    and s: "set_seasonality_attributes ext m0 = Inr m"
    by (rule ktrlite_init_steps)
  from s have "seasonality' m = seasonality' m0"
    by (simp add: set_seasonality_attributes_static)
  with d m0 show ?thesis by auto
qed

lemma ktrlite_init_no_seasonality:
  assumes "ktrlite_init ext a = Inr m" and "seasonality' m = []"
  shows "regressor_col m = [] \<and> num_of_regressors m = 0"
proof -
  from assms(1) obtain seas orders i k m0 where
    d: "set_default_args a = Inr (seas, orders, i, k)"
    and m0: "seasonality' m0 = seas"
    and s: "set_seasonality_attributes ext m0 = Inr m"
    by (rule ktrlite_init_steps)
  from s have "seasonality' m = seasonality' m0"
    by (simp add: set_seasonality_attributes_static)
  with assms(2) have "seasonality' m0 = []" by simp
  with s show ?thesis by (auto dest: set_seasonality_attributes_empty)
qed

lemma set_level_knots_static:
  assumes "set_level_knots ext m df meta = Inr m1"
  shows "regressor_matrix m1 = regressor_matrix m
     \<and> regressor_col m1 = regressor_col m
     \<and> seasonality' m1 = seasonality' m
     \<and> num_of_regressors m1 = num_of_regressors m"
proof (cases "level_knot_dates' m")
  case None
  with assms show ?thesis
    by (auto simp: set_level_knots_def ebind_Inr_iff)
next
  case (Some ds)
  with assms show ?thesis
    by (auto simp: set_level_knots_def ebind_Inr_iff)
qed

lemma set_coefficient_knots_none:
  assumes "num_of_regressors m = 0" and "set_coefficient_knots ext m df meta tp = Inr m2"
  shows "0 \<le> num_of_observations meta
     \<and> m2 = m\<lparr>kernel_coefficients :=
                 Some \<lparr>nrows = nat (num_of_observations meta), ncols = 0,
                       entries = replicate (nat (num_of_observations meta)) []\<rparr>,
               num_knots_coefficients := Some 0\<rparr>"
  using assms
  by (auto simp: set_coefficient_knots_def ebind_Inr_iff np_zeros_0_def Let_def split: if_splits)

text \<open>
  Claim C9. A model built without seasonality has no seasonality, no regressor column and
  no regressor; and every fit of such a model that returns leaves a regressor matrix and a
  coefficient kernel matrix of shape \<open>(num_of_observations, 0)\<close>, zero coefficient knots
  and an empty list of regressor columns, and \<open>_make_seasonal_regressors\<close> returns the
  input table as it is, without calling the basis generator.
\<close>

theorem zero_regressor_case:
  "(ktrlite_init ext a = Inr m \<and> seasonality a = Absent \<longrightarrow>
      seasonality' m = [] \<and> regressor_col m = [] \<and> num_of_regressors m = 0)
   \<and> (seasonality' m = [] \<and> regressor_col m = [] \<and> num_of_regressors m = 0
        \<and> set_dynamic_attributes ext m df meta = Inr m' \<longrightarrow>
      regressor_matrix m' =
        Some \<lparr>nrows = nat (num_of_observations meta), ncols = 0,
              entries = replicate (nat (num_of_observations meta)) []\<rparr>
      \<and> kernel_coefficients m' =
        Some \<lparr>nrows = nat (num_of_observations meta), ncols = 0,
              entries = replicate (nat (num_of_observations meta)) []\<rparr>
      \<and> 0 \<le> num_of_observations meta
      \<and> num_knots_coefficients m' = Some 0
      \<and> regressor_col m' = []
      \<and> num_of_regressors m' = 0
      \<and> seasonality' m' = []
      \<and> make_seasonal_regressors ext m df 0 = Inr df)"
proof (intro conjI impI)
  assume a: "ktrlite_init ext a = Inr m \<and> seasonality a = Absent"
  from ktrlite_init_seasonality [of ext a m] a obtain orders i k where
    "set_default_args a = Inr (seasonality' m, orders, i, k)" by auto
  with a show s: "seasonality' m = []" by (auto dest: set_default_args_absent)
  with a show "regressor_col m = []" "num_of_regressors m = 0"
    by (auto dest: ktrlite_init_no_seasonality)
next
  assume a: "seasonality' m = [] \<and> regressor_col m = [] \<and> num_of_regressors m = 0
        \<and> set_dynamic_attributes ext m df meta = Inr m'"
  let ?Z = "\<lparr>nrows = nat (num_of_observations meta), ncols = 0,
              entries = replicate (nat (num_of_observations meta)) []\<rparr>"
  from a show msr: "make_seasonal_regressors ext m df 0 = Inr df"
    by (simp add: make_seasonal_regressors_def)
  from a obtain m1 where v: "set_validate_ktr_params m meta = Inr m1"
    and rest1: "ebind (make_seasonal_regressors ext m1 df 0) (\<lambda>df1.
       ebind (set_regressor_matrix m1 df1 meta) (\<lambda>m2. set_kernel_matrix ext m2 df1 meta)) = Inr m'"
    by (auto simp: set_dynamic_attributes_def ebind_Inr_iff)
  from v a have m1: "seasonality' m1 = [] \<and> regressor_col m1 = [] \<and> num_of_regressors m1 = 0"
    by (auto simp: set_validate_ktr_params_def Let_def split: if_splits)
  then have "make_seasonal_regressors ext m1 df 0 = Inr df"
    by (simp add: make_seasonal_regressors_def)
  with rest1 obtain m2 where r: "set_regressor_matrix m1 df meta = Inr m2"
    and k: "set_kernel_matrix ext m2 df meta = Inr m'"
    by (auto simp: ebind_Inr_iff)
  from r m1 have m2: "seasonality' m2 = [] \<and> regressor_col m2 = [] \<and> num_of_regressors m2 = 0
      \<and> regressor_matrix m2 = Some ?Z"
    by (auto simp: set_regressor_matrix_def ebind_Inr_iff np_zeros_0_def split: if_splits)
  from k obtain m3 tp kl where
    lev: "set_level_knots ext (m2\<lparr>cutoff' := Some (num_of_observations meta)\<rparr>) df meta = Inr m3"
    and coef: "set_coefficient_knots ext (m3\<lparr>kernel_level := Some kl,
        num_knots_level := Some (length (case knots_tp_level m3 of None \<Rightarrow> [] | Some tps \<Rightarrow> tps))\<rparr>)
        df meta tp = Inr m'"
    by (blast elim: set_kernel_matrix_steps)
  from set_level_knots_static [OF lev] m2
  have m3: "seasonality' m3 = [] \<and> regressor_col m3 = [] \<and> num_of_regressors m3 = 0
      \<and> regressor_matrix m3 = Some ?Z"
    by simp
  from m3 have "num_of_regressors (m3\<lparr>kernel_level := Some kl,
        num_knots_level := Some (length (case knots_tp_level m3 of None \<Rightarrow> [] | Some tps \<Rightarrow> tps))\<rparr>) = 0"
    by simp
  from set_coefficient_knots_none [OF this coef] m3
  show "regressor_matrix m' = Some ?Z" "kernel_coefficients m' = Some ?Z"
    "0 \<le> num_of_observations meta"
    "num_knots_coefficients m' = Some 0" "regressor_col m' = []" "num_of_regressors m' = 0"
    "seasonality' m' = []"
    by simp_all
qed


theorem zero_regressor_case_witness:
  "ktrlite_init example_ext plain_args = Inr plain_model
   \<and> seasonality plain_args = Absent
   \<and> seasonality' plain_model = []
   \<and> regressor_col plain_model = []
   \<and> num_of_regressors plain_model = 0
   \<and> set_dynamic_attributes example_ext plain_model example_df example_meta = Inr plain_fitted
   \<and> regressor_matrix plain_fitted =
        Some \<lparr>nrows = nat (num_of_observations example_meta), ncols = 0,
              entries = replicate (nat (num_of_observations example_meta)) []\<rparr>
   \<and> kernel_coefficients plain_fitted =
        Some \<lparr>nrows = nat (num_of_observations example_meta), ncols = 0,
              entries = replicate (nat (num_of_observations example_meta)) []\<rparr>
   \<and> num_knots_coefficients plain_fitted = Some 0
   \<and> regressor_col plain_fitted = []
   \<and> make_seasonal_regressors example_ext plain_model example_df 0 = Inr example_df"
proof -
  have h1: "ktrlite_init example_ext plain_args = Inr plain_model" by code_simp
  have h2: "seasonality plain_args = Absent" by (simp add: plain_args_def)
  have h3: "set_dynamic_attributes example_ext plain_model example_df example_meta = Inr plain_fitted"
    by code_simp
  note A = zero_regressor_case [THEN conjunct1, THEN mp, OF conjI [OF h1 h2]]
  note a1 = A [THEN conjunct1]
  note a2 = A [THEN conjunct2, THEN conjunct1]
  note a3 = A [THEN conjunct2, THEN conjunct2]
  note B = zero_regressor_case
             [THEN conjunct2, THEN mp, OF conjI [OF a1 conjI [OF a2 conjI [OF a3 h3]]]]
  note b1 = B [THEN conjunct1]
  note b2 = B [THEN conjunct2, THEN conjunct1]
  note b4 = B [THEN conjunct2, THEN conjunct2, THEN conjunct2, THEN conjunct1]
  note b5 = B [THEN conjunct2, THEN conjunct2, THEN conjunct2, THEN conjunct2, THEN conjunct1]
  note b8 = B [THEN conjunct2, THEN conjunct2, THEN conjunct2, THEN conjunct2, THEN conjunct2,
               THEN conjunct2, THEN conjunct2]
  from h1 h2 a1 a2 a3 h3 b1 b2 b4 b5 b8 show ?thesis by (intro conjI)
qed

section \<open>Properties of the date-based level knots\<close>

lemma date_position_eq:
  assumes "0 < freq" and "start \<le> end_date"
  shows "date_position start end_date freq d =
     Some ((of_int (d - start) / of_nat freq + 1) / (of_int (end_date - start) / of_nat freq + 1))"
proof -
  have "(0::rat) \<le> of_int (end_date - start) / of_nat freq"
    using assms by simp
  then have "of_int (end_date - start) / (of_nat freq :: rat) + 1 \<noteq> 0" by linarith
  then show ?thesis
    using assms(1) by (simp add: date_position_def get_gap_between_dates_def np_div_def)
qed

lemma date_position_unit_interval:
  assumes "0 < freq" and "start \<le> d" and "d \<le> end_date"
  shows "\<exists>q. date_position start end_date freq d = Some q \<and> 0 < q \<and> q \<le> 1"
proof -
  let ?g = "of_int (d - start) / (of_nat freq :: rat)"
  let ?e = "of_int (end_date - start) / (of_nat freq :: rat)"
  have f: "(0::rat) < of_nat freq" using assms(1) by simp
  have g: "0 \<le> ?g" using assms f by simp
  have ge: "?g \<le> ?e" using assms f by (simp add: divide_right_mono)
  have "0 < (?g + 1) / (?e + 1)" using g ge by (intro divide_pos_pos) linarith+
  moreover have "(?g + 1) / (?e + 1) \<le> 1" using g ge by (simp add: divide_le_eq_1)
  moreover have "date_position start end_date freq d = Some ((?g + 1) / (?e + 1))"
    using assms by (intro date_position_eq) linarith+
  ultimately show ?thesis by blast
qed

lemma date_position_strict_mono:
  assumes "0 < freq" and "start \<le> end_date" and "d1 < d2"
  shows "the (date_position start end_date freq d1) < the (date_position start end_date freq d2)"
proof -
  let ?e = "of_int (end_date - start) / (of_nat freq :: rat)"
  have f: "(0::rat) < of_nat freq" using assms(1) by simp
  have e: "0 < ?e + 1" using assms f by (simp add: add_nonneg_pos)
  have "of_int (d1 - start) / (of_nat freq :: rat) < of_int (d2 - start) / of_nat freq"
    using assms(3) f by (simp add: divide_strict_right_mono)
  then have "(of_int (d1 - start) / (of_nat freq :: rat) + 1) / (?e + 1)
             < (of_int (d2 - start) / of_nat freq + 1) / (?e + 1)"
    using e by (simp add: divide_strict_right_mono)
  then show ?thesis
    by (simp add: date_position_eq [OF assms(1,2)])
qed


lemma set_coefficient_knots_level:
  assumes "set_coefficient_knots ext m df meta tp = Inr m2"
  shows "knots_tp_level m2 = knots_tp_level m \<and> level_knot_dates' m2 = level_knot_dates' m
     \<and> date_freq m2 = date_freq m"
proof (cases "0 < num_of_regressors m")
  case False
  with assms obtain z where "m2 = m\<lparr>kernel_coefficients := Some z, num_knots_coefficients := Some 0\<rparr>"
    by (auto simp: set_coefficient_knots_def ebind_Inr_iff Let_def)
  then show ?thesis by simp
next
  case True
  with assms obtain z ks ds where
    "m2 = m\<lparr>kernel_coefficients := Some z, num_knots_coefficients := Some 0,
            knots_idx_coef' := Some ks,
            knots_tp_coefficients := Some (knots_tp_of ks (num_of_observations meta)),
            coef_knot_dates' := Some ds,
            kernel_coefficients := Some (sandwich_kernel ext tp (knots_tp_of ks (num_of_observations meta))),
            num_knots_coefficients :=
              Some (length (knots_tp_of ks (num_of_observations meta)))\<rparr>"
    by (auto simp: set_coefficient_knots_def ebind_Inr_iff Let_def)
  then show ?thesis by simp
qed

lemma freq_choice:
  assumes "(case date_freq m of
               Some freq \<Rightarrow> Inr freq
             | None \<Rightarrow> (case infer_freq ext ds of
                           None \<Rightarrow> Inl TypeError
                         | Some freq \<Rightarrow> Inr freq)) = Inr freq"
  shows "date_freq m = Some freq \<or> date_freq m = None \<and> infer_freq ext ds = Some freq"
proof (cases "date_freq m")
  case None
  with assms show ?thesis by (cases "infer_freq ext ds") simp_all
next
  case (Some f)
  with assms show ?thesis by simp
qed

lemma filter_dates_Inr:
  assumes "filter_dates df_dates ds = Inr kept"
  shows "kept = filter (\<lambda>x. x \<le> last df_dates \<and> hd df_dates \<le> x) ds"
proof (cases "ds = []")
  case True
  with assms show ?thesis by (simp add: filter_dates_def)
next
  case False
  with assms show ?thesis by (cases "df_dates = []") (simp_all add: filter_dates_def)
qed

lemma set_level_knots_dates:
  assumes "level_knot_dates' m = Some ds" and "set_level_knots ext m df meta = Inr m1"
  shows "\<exists>freq. (date_freq m = Some freq \<or> date_freq m = None \<and> infer_freq ext (dates df) = Some freq)
     \<and> level_knot_dates' m1 = Some (filter (\<lambda>x. x \<le> last (dates df) \<and> hd (dates df) \<le> x) ds)
     \<and> knots_tp_level m1 =
         Some (map (date_position (training_start meta) (training_end meta) freq)
                 (filter (\<lambda>x. x \<le> last (dates df) \<and> hd (dates df) \<le> x) ds))
     \<and> date_freq m1 = Some freq"
proof -
  from assms have "ebind (filter_dates (dates df) ds)
            (\<lambda>kept.
          ebind (case date_freq m of
                   Some freq \<Rightarrow> Inr freq
                 | None \<Rightarrow> (case infer_freq ext (dates df) of
                               None \<Rightarrow> Inl TypeError
                             | Some freq \<Rightarrow> Inr freq))
            (\<lambda>freq.
          Inr (m\<lparr>level_knot_dates' := Some kept,
                  date_freq := Some freq,
                  knots_tp_level :=
                    Some (map (date_position (training_start meta) (training_end meta) freq)
                            kept)\<rparr>))) = Inr m1"
    by (simp add: set_level_knots_def)
  then obtain kept where
    k: "filter_dates (dates df) ds = Inr kept"
    and r: "ebind (case date_freq m of
                   Some freq \<Rightarrow> Inr freq
                 | None \<Rightarrow> (case infer_freq ext (dates df) of
                               None \<Rightarrow> Inl TypeError
                             | Some freq \<Rightarrow> Inr freq))
            (\<lambda>freq.
          Inr (m\<lparr>level_knot_dates' := Some kept,
                  date_freq := Some freq,
                  knots_tp_level :=
                    Some (map (date_position (training_start meta) (training_end meta) freq)
                            kept)\<rparr>)) = Inr m1"
    unfolding ebind_Inr_iff [of "filter_dates (dates df) ds"] by blast
  from r obtain freq where
    f: "(case date_freq m of
               Some freq \<Rightarrow> Inr freq
             | None \<Rightarrow> (case infer_freq ext (dates df) of
                           None \<Rightarrow> Inl TypeError
                         | Some freq \<Rightarrow> Inr freq)) = Inr freq"
    and m1: "Inr (m\<lparr>level_knot_dates' := Some kept, date_freq := Some freq,
                    knots_tp_level :=
                      Some (map (date_position (training_start meta) (training_end meta) freq) kept)\<rparr>)
             = (Inr m1 :: error + ktrlite)"
    unfolding ebind_Inr_iff by blast
  from m1 have m1': "m1 = m\<lparr>level_knot_dates' := Some kept, date_freq := Some freq,
                    knots_tp_level :=
                      Some (map (date_position (training_start meta) (training_end meta) freq) kept)\<rparr>"
    by simp
  note kept = filter_dates_Inr [OF k]
  note fr = freq_choice [OF f]
  have a: "level_knot_dates' m1 = Some (filter (\<lambda>x. x \<le> last (dates df) \<and> hd (dates df) \<le> x) ds)"
    unfolding m1' kept by simp
  have b: "knots_tp_level m1 =
         Some (map (date_position (training_start meta) (training_end meta) freq)
                 (filter (\<lambda>x. x \<le> last (dates df) \<and> hd (dates df) \<le> x) ds))"
    unfolding m1' kept by simp
  have c: "date_freq m1 = Some freq"
    unfolding m1' by simp
  show ?thesis
    by (rule exI [of _ freq], intro conjI) (rule fr, rule a, rule b, rule c)
qed

lemma set_kernel_matrix_dates:
  assumes "level_knot_dates' m = Some ds" and "set_kernel_matrix ext m df meta = Inr m'"
  shows "\<exists>freq.
       (date_freq m = Some freq \<or> date_freq m = None \<and> infer_freq ext (dates df) = Some freq)
     \<and> level_knot_dates' m' = Some (filter (\<lambda>x. x \<le> last (dates df) \<and> hd (dates df) \<le> x) ds)
     \<and> knots_tp_level m' =
         Some (map (date_position (training_start meta) (training_end meta) freq)
                 (filter (\<lambda>x. x \<le> last (dates df) \<and> hd (dates df) \<le> x) ds))"
proof -
  from assms(2) obtain m1 tp kl where
    lev: "set_level_knots ext (m\<lparr>cutoff' := Some (num_of_observations meta)\<rparr>) df meta = Inr m1"
    and coef: "set_coefficient_knots ext (m1\<lparr>kernel_level := Some kl,
        num_knots_level := Some (length (case knots_tp_level m1 of None \<Rightarrow> [] | Some tps \<Rightarrow> tps))\<rparr>)
        df meta tp = Inr m'"
    by (blast elim: set_kernel_matrix_steps)
  let ?kept = "filter (\<lambda>x. x \<le> last (dates df) \<and> hd (dates df) \<le> x) ds"
  from assms(1) have "level_knot_dates' (m\<lparr>cutoff' := Some (num_of_observations meta)\<rparr>) = Some ds"
    by simp
  from set_level_knots_dates [OF this lev] obtain freq where
    fr: "date_freq m = Some freq \<or> date_freq m = None \<and> infer_freq ext (dates df) = Some freq"
    and kd: "level_knot_dates' m1 = Some ?kept"
    and tp: "knots_tp_level m1 =
         Some (map (date_position (training_start meta) (training_end meta) freq) ?kept)"
    by auto
  from set_coefficient_knots_level [OF coef] kd tp
  have kd': "level_knot_dates' m' = Some ?kept"
    and tp': "knots_tp_level m' =
         Some (map (date_position (training_start meta) (training_end meta) freq) ?kept)"
    by simp_all
  show ?thesis
    by (rule exI [of _ freq], intro conjI) (rule fr, rule kd', rule tp')
qed

section \<open>Fitting twice\<close>

text \<open>
  The first fit stores the dates of the knots it placed in \<open>_level_knot_dates\<close>, the
  attribute whose being \<open>None\<close> selects the placement by index: after a fit that returns,
  the attribute is never \<open>None\<close>, and every later fit of the same object places the level
  knots by dates.
\<close>

lemma set_level_knots_records_dates:
  assumes "set_level_knots ext m df meta = Inr m1"
  shows "level_knot_dates' m1 \<noteq> None"
proof (cases "level_knot_dates' m")
  case None
  with assms obtain ks ds where
    "m1 = m\<lparr>knots_idx_level' := Some ks,
            knots_tp_level := Some (knots_tp_of ks (num_of_observations meta)),
            level_knot_dates' := Some ds\<rparr>"
    by (auto simp: set_level_knots_def ebind_Inr_iff)
  then show ?thesis by simp
next
  case (Some ds)
  from set_level_knots_dates [OF Some assms] show ?thesis by auto
qed

lemma set_validate_ktr_params_level:
  assumes "set_validate_ktr_params m meta = Inr m1"
  shows "level_knot_dates' m1 = level_knot_dates' m"
proof (cases "seasonality' m \<noteq> [] \<and> num_of_observations meta < py_round (np_max (seasonality' m))")
  case True
  with assms show ?thesis by (simp add: set_validate_ktr_params_def)
next
  case False
  with assms show ?thesis by (auto simp: set_validate_ktr_params_def Let_def)
qed

lemma set_dynamic_attributes_steps:
  assumes "set_dynamic_attributes ext m df meta = Inr m'"
  obtains m1 df1 m2 where
    "set_validate_ktr_params m meta = Inr m1"
    "make_seasonal_regressors ext m1 df 0 = Inr df1"
    "set_regressor_matrix m1 df1 meta = Inr m2"
    "set_kernel_matrix ext m2 df1 meta = Inr m'"
  using assms unfolding set_dynamic_attributes_def ebind_Inr_iff by blast

lemma fit_records_level_knot_dates:
  assumes "set_dynamic_attributes ext m df meta = Inr m'"
  shows "level_knot_dates' m' \<noteq> None"
proof -
  from assms obtain m2 df1 where k: "set_kernel_matrix ext m2 df1 meta = Inr m'"
    by (rule set_dynamic_attributes_steps)
  from k obtain m3 tp kl where
    lev: "set_level_knots ext (m2\<lparr>cutoff' := Some (num_of_observations meta)\<rparr>) df1 meta = Inr m3"
    and coef: "set_coefficient_knots ext (m3\<lparr>kernel_level := Some kl,
        num_knots_level := Some (length (case knots_tp_level m3 of None \<Rightarrow> [] | Some tps \<Rightarrow> tps))\<rparr>)
        df1 meta tp = Inr m'"
    by (rule set_kernel_matrix_steps)
  from set_level_knots_records_dates [OF lev] set_coefficient_knots_level [OF coef]
  show ?thesis by simp
qed

text \<open>
  Claim C1 says that a second fit on the same inputs leaves the same published state, the
  level knots being placed by the same index rule. On the weekly example the first fit
  places the level knots at the indices \<open>[1, 3]\<close>, with positions \<open>[1/2, 1]\<close>; the second
  fit, on the same table and metadata, takes the dates \<open>[7, 21]\<close> of these knots for
  explicit knot dates and publishes the positions \<open>[4/11, 1]\<close>.
\<close>

theorem second_fit_moves_level_knots:
  "ktrlite_init example_ext weekly_args = Inr weekly_model
   \<and> level_knot_dates weekly_args = None
   \<and> level_knot_dates' weekly_model = None
   \<and> set_dynamic_attributes example_ext weekly_model weekly_df weekly_meta = Inr weekly_fit1
   \<and> knots_idx_level' weekly_fit1 = Some [1, 3]
   \<and> knots_tp_level weekly_fit1 = Some [Some (1 / 2), Some 1]
   \<and> level_knot_dates' weekly_fit1 = Some [7, 21]
   \<and> set_dynamic_attributes example_ext weekly_fit1 weekly_df weekly_meta = Inr weekly_fit2
   \<and> knots_tp_level weekly_fit2 = Some [Some (4 / 11), Some 1]
   \<and> knots_tp_level weekly_fit2 \<noteq> knots_tp_level weekly_fit1"
  by code_simp

section \<open>The first fit with explicit level knot dates\<close>

text \<open>
  Construction copies the supplied knot dates and the supplied frequency into the attributes
  the fit reads, and the steps of a fit before \<open>_set_kernel_matrix\<close> leave them alone.
\<close>

lemma seasonality_loop_date_freq:
  "seasonality_loop ext ps m = Inr m' \<Longrightarrow> date_freq m' = date_freq m"
proof (induction ext ps m rule: seasonality_loop.induct)
  case (1 ext m)
  then show ?case by simp
next
  case (2 ext idx s rest m)
  from "2.prems" obtain order a b where
    o: "py_get (seasonality_fs_order' m) (int idx) = Inr order"
    and a: "py_get (seasonal_initial_knot_scale' m) (int idx) = Inr a"
    and b: "py_get (seasonal_knot_scale' m) (int idx) = Inr b"
    by (auto split: sum.splits)
  from "2.prems" "2.IH" [OF o a b refl] o a b show ?case
    by (simp add: Let_def)
qed

lemma set_seasonality_attributes_date_freq:
  assumes "set_seasonality_attributes ext m = Inr m'"
  shows "date_freq m' = date_freq m"
proof (cases "0 < length (seasonality' m)")
  case False
  with assms show ?thesis by (auto simp: set_seasonality_attributes_def)
next
  case True
  let ?m0 = "m\<lparr>regressor_col_gp := [], regressor_col := [],
                 coefficients_initial_knot_scale := [], coefficients_knot_scale := []\<rparr>"
  from assms True obtain m1 where
    l: "seasonality_loop ext (enumerate 0 (seasonality' m)) ?m0 = Inr m1"
    and m': "m' = m1\<lparr>num_of_regressors := length (regressor_col m1)\<rparr>"
    by (auto simp: set_seasonality_attributes_def Let_def ebind_Inr_iff)
  from seasonality_loop_date_freq [OF l] m' show ?thesis by simp
qed

lemma ktrlite_init_steps_freq:
  assumes "ktrlite_init ext a = Inr m"
  obtains m0 where
    "level_knot_dates' m0 = level_knot_dates a"
    "date_freq m0 = date_freq a"
    "set_seasonality_attributes ext m0 = Inr m"
proof (cases "set_default_args a")
  case (Inl e)
  with assms show ?thesis by (simp add: ktrlite_init_def)
next
  case (Inr t)
  obtain seas orders initial_scale knot_scale
    where t: "t = (seas, orders, initial_scale, knot_scale)"
    by (cases t) auto
  from assms Inr t show ?thesis
    by (intro that) (simp_all add: ktrlite_init_def)
qed

lemma ktrlite_init_supplied:
  assumes "ktrlite_init ext a = Inr m"
  shows "level_knot_dates' m = level_knot_dates a \<and> date_freq m = date_freq a"
proof -
  from assms obtain m0 where
    m0: "level_knot_dates' m0 = level_knot_dates a" "date_freq m0 = date_freq a"
    and s: "set_seasonality_attributes ext m0 = Inr m"
    by (rule ktrlite_init_steps_freq)
  from set_seasonality_attributes_static [OF s] set_seasonality_attributes_date_freq [OF s] m0
  show ?thesis by simp
qed

lemma set_validate_ktr_params_frame:
  assumes "set_validate_ktr_params m meta = Inr m1"
  shows "date_freq m1 = date_freq m \<and> seasonality' m1 = seasonality' m
     \<and> seasonality_fs_order' m1 = seasonality_fs_order' m"
proof (cases "seasonality' m \<noteq> [] \<and> num_of_observations meta < py_round (np_max (seasonality' m))")
  case True
  with assms show ?thesis by (simp add: set_validate_ktr_params_def)
next
  case False
  with assms show ?thesis by (auto simp: set_validate_ktr_params_def Let_def)
qed

lemma set_regressor_matrix_frame:
  assumes "set_regressor_matrix m df meta = Inr m2"
  shows "level_knot_dates' m2 = level_knot_dates' m \<and> date_freq m2 = date_freq m"
proof -
  from assms obtain z where
    "m2 = m\<lparr>regressor_matrix :=
                Some (if 0 < num_of_regressors m then df_filter_values (regressor_col m) df else z)\<rparr>"
    unfolding set_regressor_matrix_def ebind_Inr_iff by auto
  then show ?thesis by simp
qed

lemma make_seasonal_regressors_cong:
  assumes "seasonality' m1 = seasonality' m" and "seasonality_fs_order' m1 = seasonality_fs_order' m"
  shows "make_seasonal_regressors ext m1 df shift = make_seasonal_regressors ext m df shift"
  using assms by (simp add: make_seasonal_regressors_def)

lemma fourier_loop_dates:
  assumes "\<forall>d s order prefix shift. dates (make_fourier_series_df ext d s order prefix shift) = dates d"
  shows "fourier_loop ext orders ps df shift = Inr df1 \<Longrightarrow> dates df1 = dates df"
  using assms
proof (induction ext orders ps df shift rule: fourier_loop.induct)
  case (1 ext orders df shift)
  then show ?case by simp
next
  case (2 ext orders idx s rest df shift)
  from "2.prems"(1) obtain order where
    o: "py_get orders (int idx) = Inr order"
    and r: "fourier_loop ext orders rest
              (make_fourier_series_df ext df s order (''seas'' @ str_num ext s @ ''_'') shift) shift
            = Inr df1"
    by (auto split: sum.splits)
  from "2.IH" [OF o r "2.prems"(2)] "2.prems"(2) show ?case by simp
qed

lemma make_seasonal_regressors_dates:
  assumes "\<forall>d s order prefix shift. dates (make_fourier_series_df ext d s order prefix shift) = dates d"
    and "make_seasonal_regressors ext m df shift = Inr df1"
  shows "dates df1 = dates df"
proof (cases "0 < length (seasonality' m)")
  case True
  with assms(2) have "fourier_loop ext (seasonality_fs_order' m) (enumerate 0 (seasonality' m)) df shift
                      = Inr df1"
    by (simp add: make_seasonal_regressors_def)
  with assms(1) show ?thesis by (rule fourier_loop_dates)
next
  case False
  with assms(2) show ?thesis by (simp add: make_seasonal_regressors_def)
qed

lemma date_position_formula:
  assumes "0 < freq" and "of_int (end_date - start) / of_nat freq + 1 \<noteq> (0::rat)"
  shows "date_position start end_date freq d =
     Some ((of_int (d - start) / of_nat freq + 1) / (of_int (end_date - start) / of_nat freq + 1))"
  using assms by (simp add: date_position_def get_gap_between_dates_def np_div_def)

text \<open>
  Claim C5, as stated, fails in four ways. The positions follow the order of the supplied
  dates, which the template neither sorts nor deduplicates: \<open>level_knot_dates=[5, 3]\<close> on
  eight daily observations gives \<open>[3/4, 1/2]\<close>. A position leaves \<open>(0, 1]\<close> when the
  training window does not cover the observed dates: with \<open>training_start\<close> on day 4 the
  dates \<open>[2, 5, 9]\<close> give \<open>[-1/4, 1/2]\<close>. Increasing dates give decreasing positions
  when \<open>training_end\<close> is before \<open>training_start\<close>: \<open>[1/2, -1/4]\<close>. And a later fit
  filters the dates that the fit before it kept, not the supplied ones: after a fit on eight
  days, a fit on twelve days keeps \<open>[2, 5]\<close>, where a new model keeps \<open>[2, 5, 9]\<close>.
\<close>

theorem date_knot_positions_counterexample:
  "level_knot_dates unsorted_args = Some [5, 3]
   \<and> map_sum id knots_tp_level
         (set_dynamic_attributes example_ext unsorted_model example_df example_meta)
       = Inr (Some [Some (3 / 4), Some (1 / 2)])
   \<and> \<not> sorted_wrt (<) [3 / 4, 1 / 2 :: rat]
   \<and> level_knot_dates dated_args = Some [2, 5, 9]
   \<and> sorted_wrt (<) [2, 5, 9 :: int]
   \<and> training_start late_start_meta = 4
   \<and> hd (dates example_df) = 0
   \<and> map_sum id knots_tp_level
         (set_dynamic_attributes example_ext dated_model example_df late_start_meta)
       = Inr (Some [Some (- (1 / 4)), Some (1 / 2)])
   \<and> \<not> 0 < (- (1 / 4) :: rat)
   \<and> training_start reversed_meta = 5
   \<and> training_end reversed_meta = 0
   \<and> map_sum id knots_tp_level
         (set_dynamic_attributes example_ext dated_model example_df reversed_meta)
       = Inr (Some [Some (1 / 2), Some (- (1 / 4))])
   \<and> \<not> sorted_wrt (<) [1 / 2, - (1 / 4) :: rat]
   \<and> set_dynamic_attributes example_ext dated_model example_df example_meta = Inr dated_fit1
   \<and> map_sum id level_knot_dates'
         (set_dynamic_attributes example_ext dated_fit1 longer_df longer_meta)
       = Inr (Some [2, 5])
   \<and> map_sum id level_knot_dates'
         (set_dynamic_attributes example_ext dated_model longer_df longer_meta)
       = Inr (Some [2, 5, 9])"
  by code_simp

text \<open>
  Claim C5, amended. When explicit level knot dates are supplied, the first fit of the model
  keeps the supplied dates that lie between the first and the last observed date (both
  included), in the supplied order, and maps each kept date \<open>d\<close> to
  \<open>(gap(training_start, d) + 1) / (gap(training_start, training_end) + 1)\<close>, the gaps
  counted in units of the supplied frequency, or of the inferred one when none is supplied
  (the quotient is a number unless its divisor is zero). The observed dates are those of the
  table that \<open>_make_seasonal_regressors\<close> returns, which are the input table's when the
  basis generator leaves the date column as it is. When \<open>training_start\<close> is not after the
  first observed date and \<open>training_end\<close> is not before the last, every position lies in
  \<open>(0, 1]\<close>; when \<open>training_start\<close> is not after \<open>training_end\<close> and the supplied
  dates are strictly increasing, so are the positions.
\<close>

theorem date_knot_positions:
  assumes "ktrlite_init ext a = Inr m"
    and "level_knot_dates a = Some ds"
    and "set_dynamic_attributes ext m df meta = Inr m'"
  shows "\<exists>freq kept df1.
       make_seasonal_regressors ext m df 0 = Inr df1
     \<and> ((\<forall>d s order prefix shift.
            dates (make_fourier_series_df ext d s order prefix shift) = dates d) \<longrightarrow>
          dates df1 = dates df)
     \<and> (date_freq a = Some freq \<or> date_freq a = None \<and> infer_freq ext (dates df1) = Some freq)
     \<and> kept = filter (\<lambda>x. x \<le> last (dates df1) \<and> hd (dates df1) \<le> x) ds
     \<and> level_knot_dates' m' = Some kept
     \<and> knots_tp_level m' =
         Some (map (date_position (training_start meta) (training_end meta) freq) kept)
     \<and> (0 < freq \<and> of_int (training_end meta - training_start meta) / of_nat freq + 1 \<noteq> (0::rat) \<longrightarrow>
          (\<forall>d. date_position (training_start meta) (training_end meta) freq d =
                 Some ((of_int (d - training_start meta) / of_nat freq + 1) /
                       (of_int (training_end meta - training_start meta) / of_nat freq + 1))))
     \<and> (0 < freq \<and> training_start meta \<le> hd (dates df1) \<and> last (dates df1) \<le> training_end meta \<longrightarrow>
          (\<forall>d \<in> set kept.
             \<exists>q. date_position (training_start meta) (training_end meta) freq d = Some q
                \<and> 0 < q \<and> q \<le> 1))
     \<and> (0 < freq \<and> training_start meta \<le> training_end meta \<and> sorted_wrt (<) ds \<longrightarrow>
          sorted_wrt (<) (map (\<lambda>d. the (date_position (training_start meta) (training_end meta) freq d))
                           kept))"
proof -
  from ktrlite_init_supplied [OF assms(1)] assms(2)
  have sup: "level_knot_dates' m = Some ds" and fq: "date_freq m = date_freq a"
    by simp_all
  from assms(3) obtain m1 df1 m2 where
    v: "set_validate_ktr_params m meta = Inr m1"
    and g: "make_seasonal_regressors ext m1 df 0 = Inr df1"
    and r: "set_regressor_matrix m1 df1 meta = Inr m2"
    and k: "set_kernel_matrix ext m2 df1 meta = Inr m'"
    by (rule set_dynamic_attributes_steps)
  note vf = set_validate_ktr_params_frame [OF v]
  from vf have "make_seasonal_regressors ext m1 df 0 = make_seasonal_regressors ext m df 0"
    by (intro make_seasonal_regressors_cong) simp_all
  with g have g': "make_seasonal_regressors ext m df 0 = Inr df1" by simp
  have keep: "(\<forall>d s order prefix shift.
            dates (make_fourier_series_df ext d s order prefix shift) = dates d) \<longrightarrow>
          dates df1 = dates df"
    using g' by (blast intro: make_seasonal_regressors_dates)
  from set_validate_ktr_params_level [OF v] vf set_regressor_matrix_frame [OF r] sup fq
  have sup2: "level_knot_dates' m2 = Some ds" and fq2: "date_freq m2 = date_freq a"
    by simp_all
  let ?kept = "filter (\<lambda>x. x \<le> last (dates df1) \<and> hd (dates df1) \<le> x) ds"
  let ?s = "training_start meta" and ?e = "training_end meta"
  from set_kernel_matrix_dates [OF sup2 k] obtain freq where
    fr0: "date_freq m2 = Some freq \<or> date_freq m2 = None \<and> infer_freq ext (dates df1) = Some freq"
    and kd: "level_knot_dates' m' = Some ?kept"
    and tp: "knots_tp_level m' = Some (map (date_position ?s ?e freq) ?kept)"
    by blast
  from fr0 have fr: "date_freq a = Some freq \<or> date_freq a = None \<and> infer_freq ext (dates df1) = Some freq"
    unfolding fq2 .
  have formula: "0 < freq \<and> of_int (?e - ?s) / of_nat freq + 1 \<noteq> (0::rat) \<longrightarrow>
          (\<forall>d. date_position ?s ?e freq d =
                 Some ((of_int (d - ?s) / of_nat freq + 1) / (of_int (?e - ?s) / of_nat freq + 1)))"
    by (simp add: date_position_formula)
  have unit: "0 < freq \<and> ?s \<le> hd (dates df1) \<and> last (dates df1) \<le> ?e \<longrightarrow>
          (\<forall>d \<in> set ?kept. \<exists>q. date_position ?s ?e freq d = Some q \<and> 0 < q \<and> q \<le> 1)"
  proof (intro impI ballI)
    fix d
    assume h: "0 < freq \<and> ?s \<le> hd (dates df1) \<and> last (dates df1) \<le> ?e"
      and d: "d \<in> set ?kept"
    from d have "hd (dates df1) \<le> d" "d \<le> last (dates df1)" by simp_all
    with h have "0 < freq" "?s \<le> d" "d \<le> ?e" by linarith+
    then show "\<exists>q. date_position ?s ?e freq d = Some q \<and> 0 < q \<and> q \<le> 1"
      by (rule date_position_unit_interval)
  qed
  have mono: "0 < freq \<and> ?s \<le> ?e \<and> sorted_wrt (<) ds \<longrightarrow>
          sorted_wrt (<) (map (\<lambda>d. the (date_position ?s ?e freq d)) ?kept)"
  proof
    assume h: "0 < freq \<and> ?s \<le> ?e \<and> sorted_wrt (<) ds"
    then have "sorted_wrt (<) ?kept" by (simp add: sorted_wrt_filter)
    then have "sorted_wrt (\<lambda>d1 d2. the (date_position ?s ?e freq d1)
                   < the (date_position ?s ?e freq d2)) ?kept"
      using h by (elim sorted_wrt_mono_rel [rotated]) (simp add: date_position_strict_mono)
    then show "sorted_wrt (<) (map (\<lambda>d. the (date_position ?s ?e freq d)) ?kept)"
      by (simp add: sorted_wrt_map)
  qed
  show ?thesis
    by (rule exI [of _ freq], rule exI [of _ ?kept], rule exI [of _ df1], intro conjI)
       (rule g', rule keep, rule fr, rule refl, rule kd, rule tp, rule formula, rule unit, rule mono)
qed

theorem date_knot_positions_witness:
  "ktrlite_init example_ext dated_args = Inr dated_model
   \<and> level_knot_dates dated_args = Some [2, 5, 9]
   \<and> set_dynamic_attributes example_ext dated_model example_df example_meta = Inr dated_fit1
   \<and> (\<forall>d s order prefix shift.
         dates (make_fourier_series_df example_ext d s order prefix shift) = dates d)
   \<and> date_freq dated_args = None
   \<and> infer_freq example_ext (dates example_df) = Some 1
   \<and> training_start example_meta \<le> hd (dates example_df)
   \<and> last (dates example_df) \<le> training_end example_meta
   \<and> training_start example_meta \<le> training_end example_meta
   \<and> sorted_wrt (<) [2, 5, 9 :: int]
   \<and> level_knot_dates' dated_fit1 = Some [2, 5]
   \<and> knots_tp_level dated_fit1 = Some [Some (3 / 8), Some (3 / 4)]
   \<and> (\<exists>freq kept df1.
       make_seasonal_regressors example_ext dated_model example_df 0 = Inr df1
     \<and> ((\<forall>d s order prefix shift.
            dates (make_fourier_series_df example_ext d s order prefix shift) = dates d) \<longrightarrow>
          dates df1 = dates example_df)
     \<and> (date_freq dated_args = Some freq \<or> date_freq dated_args = None \<and> infer_freq example_ext (dates df1) = Some freq)
     \<and> kept = filter (\<lambda>x. x \<le> last (dates df1) \<and> hd (dates df1) \<le> x) [2, 5, 9]
     \<and> level_knot_dates' dated_fit1 = Some kept
     \<and> knots_tp_level dated_fit1 =
         Some (map (date_position (training_start example_meta) (training_end example_meta) freq) kept)
     \<and> (0 < freq \<and> of_int (training_end example_meta - training_start example_meta) / of_nat freq + 1 \<noteq> (0::rat) \<longrightarrow>
          (\<forall>d. date_position (training_start example_meta) (training_end example_meta) freq d =
                 Some ((of_int (d - training_start example_meta) / of_nat freq + 1) /
                       (of_int (training_end example_meta - training_start example_meta) / of_nat freq + 1))))
     \<and> (0 < freq \<and> training_start example_meta \<le> hd (dates df1) \<and> last (dates df1) \<le> training_end example_meta \<longrightarrow>
          (\<forall>d \<in> set kept.
             \<exists>q. date_position (training_start example_meta) (training_end example_meta) freq d = Some q
                \<and> 0 < q \<and> q \<le> 1))
     \<and> (0 < freq \<and> training_start example_meta \<le> training_end example_meta \<and> sorted_wrt (<) [2, 5, 9 :: int] \<longrightarrow>
          sorted_wrt (<) (map (\<lambda>d. the (date_position (training_start example_meta) (training_end example_meta) freq d))
                           kept)))"
proof -
  have h1: "ktrlite_init example_ext dated_args = Inr dated_model" by code_simp
  have h2: "level_knot_dates dated_args = Some [2, 5, 9]" by code_simp
  have h3: "set_dynamic_attributes example_ext dated_model example_df example_meta = Inr dated_fit1"
    by code_simp
  have p: "\<forall>d s order prefix shift.
         dates (make_fourier_series_df example_ext d s order prefix shift) = dates d"
    by (simp add: example_ext_def)
  have f1: "date_freq dated_args = None" by code_simp
  have f2: "infer_freq example_ext (dates example_df) = Some 1" by code_simp
  have f3: "training_start example_meta \<le> hd (dates example_df)" by code_simp
  have f4: "last (dates example_df) \<le> training_end example_meta" by code_simp
  have f5: "training_start example_meta \<le> training_end example_meta" by code_simp
  have f6: "sorted_wrt (<) [2, 5, 9 :: int]" by simp
  have f7: "level_knot_dates' dated_fit1 = Some [2, 5]" by code_simp
  have f8: "knots_tp_level dated_fit1 = Some [Some (3 / 8), Some (3 / 4)]" by code_simp
  note T = date_knot_positions [OF h1 h2 h3]
  from h1 h2 h3 p f1 f2 f3 f4 f5 f6 f7 f8 T show ?thesis by (intro conjI)
qed

end
